theory Spec2Isabelle
  imports Complex_Main
begin

section \<open>The PCA PSF determiner of meas_algorithms (pcaPsfDeterminer.py)\<close>

text \<open>
  This theory embeds \<^verbatim>\<open>PcaPsfDeterminer.determinePsf\<close> and
  \<^verbatim>\<open>PcaPsfDeterminer._fitPsf\<close> of
  \<^verbatim>\<open>python/lsst/meas/algorithms/pcaPsfDeterminer.py\<close>.

  Conventions of the embedding:
  \<^item> The floats the method hands from one library call to the next (pixels, centres,
    parameters of a fit, residuals) are real numbers. The floats whose special values
    or whose rounding reach the control flow of the method have a type of their own,
    \<open>pyfloat\<close>: the reduced chi-square of a candidate (tested for NaN, and the key of a
    sort) and the second moments and sizes the size of the kernel is computed from
    (\<^verbatim>\<open>int()\<close> of a float). The arithmetic on the latter is that of IEEE doubles, which
    is not modelled: its operations are fields of \<open>externals\<close>.
  \<^item> The candidate objects live in a store (\<open>heap\<close>) indexed by references; the
    candidate list and the cells of the spatial cell set hold references, as the
    Python objects are shared between the two.
  \<^item> The library calls the method makes (afw's spatial cells, the C++ fitting
    routines of algorithmsLib, the clipped statistics) are fields of the record
    \<open>externals\<close>: the theorems hold for every choice of them.
  \<^item> An exception is a value \<open>Inl e\<close>; every function that can raise returns the
    state reached when it raised beside it.
  \<^item> The library calls are taken to return: of their exceptions only the one of
    \<^verbatim>\<open>cand.getImage()\<close>, which the method catches, is modelled.
  \<^item> The state carries a \<open>trace\<close>: the sequence of the calls that change or read the
    candidates (the fits, the status resets, the two clipping steps, the stamp size
    setters) in the order the method makes them. It is written, never read.
  \<^item> The ds9 and matplotlib display calls are left out: they draw, and change
    neither the candidates nor the control flow. The interactive prompt, which can
    leave the loop, is modelled.
\<close>

subsection \<open>Data\<close>

text \<open>\<^verbatim>\<open>afwMath.SpatialCellCandidate.{BAD, GOOD, UNKNOWN}\<close>.\<close>

datatype status = BAD | GOOD | UNKNOWN

text \<open>
  A double: a finite value, an infinity or NaN. Every comparison with NaN is false
  (\<open>float_lt\<close> is \<^verbatim>\<open><\<close>, \<open>float_gt\<close> is \<^verbatim>\<open>>\<close>, \<open>isnan\<close> is \<^verbatim>\<open>numpy.isnan\<close>).
\<close>

datatype pyfloat = Float real | PosInf | NegInf | NaN

fun isnan :: "pyfloat \<Rightarrow> bool" where
  "isnan NaN = True"
| "isnan a = False"

fun float_lt :: "pyfloat \<Rightarrow> pyfloat \<Rightarrow> bool" where
  "float_lt (Float x) (Float y) = (x < y)"
| "float_lt NegInf (Float y) = True"
| "float_lt NegInf PosInf = True"
| "float_lt (Float x) PosInf = True"
| "float_lt a b = False"

definition float_gt :: "pyfloat \<Rightarrow> pyfloat \<Rightarrow> bool" where
  "float_gt a b = float_lt b a"

text \<open>
  A detected source: its identifier, its second moments and its detection flags
  (\<^verbatim>\<open>getIxx, getIyy, getIxy, getFlagForDetection\<close>).
\<close>

record source =
  getId :: int
  getIxx :: pyfloat
  getIyy :: pyfloat
  getIxy :: pyfloat
  getFlagForDetection :: int

text \<open>
  A PSF candidate (\<^verbatim>\<open>lsst.meas.algorithms.PsfCandidate\<close>): the fields are named
  after its getters.
\<close>

record candidate =
  getSource :: source
  getXCenter :: real
  getYCenter :: real
  getChi2 :: pyfloat
  getStatus :: status

type_synonym ref = nat
type_synonym heap = "ref \<Rightarrow> candidate"

text \<open>
  A spatial cell set: the list of its cells (\<^verbatim>\<open>getCellList()\<close>), each the list of
  the candidates it holds, in the order the cell iterates them.
\<close>

type_synonym cellSet = "ref list list"

text \<open>An image is its rows of pixels; \<^verbatim>\<open>FixedKernel.getSum()\<close> adds the pixels up.\<close>

type_synonym image = "real list list"

definition getSum :: "image \<Rightarrow> real" where
  "getSum k = sum_list (map sum_list k)"

text \<open>
  The spatially varying kernel of the PSF: the number of its basis kernels and the
  spatial function of each (\<^verbatim>\<open>getNKernelParameters(), getSpatialFunction(k)(x, y)\<close>).
  \<^verbatim>\<open>afwDetection.createPsf("PCA", kernel)\<close> wraps the kernel and
  \<^verbatim>\<open>psf.getKernel()\<close> gives it back, so the PSF is modelled by its kernel.
\<close>

record kernel =
  getNKernelParameters :: nat
  getSpatialFunction :: "nat \<Rightarrow> real \<Rightarrow> real \<Rightarrow> real"

text \<open>The fields \<^verbatim>\<open>__init__\<close> reads from the policy (\<^verbatim>\<open>self._kernelSize\<close> and so on).\<close>

record PcaPsfDeterminer =
  nonLinearSpatialFit :: bool
  nEigenComponents :: int
  spatialOrder :: int
  sizeCellX :: int
  sizeCellY :: int
  nStarPerCell :: int
  kernelSize :: int
  kernelSizeMin :: int
  kernelSizeMax :: int
  borderWidth :: int
  nStarPerCellSpatialFit :: int
  constantWeight :: bool
  tolerance :: real
  lambda :: real
  reducedChi2ForPsfCandidates :: real
  nIterForPsf :: int
  spatialReject :: real

text \<open>
  The exceptions of the model: \<^verbatim>\<open>RuntimeError("No PSF candidates supplied.")\<close>,
  a float division by zero, an index out of range (of \<^verbatim>\<open>residuals[:,k]\<close> and of
  \<^verbatim>\<open>args.pop(0)\<close>), \<^verbatim>\<open>int()\<close> of a NaN and \<^verbatim>\<open>int()\<close> of an infinity.
\<close>

datatype error = RuntimeError string | ZeroDivisionError | IndexError | ValueError | OverflowError

text \<open>The calls recorded in the trace.\<close>

datatype event =
    SetHeight int
  | SetWidth int
  | BeginIteration int
  | FitPsf "status list list"
  | ResetStatus "ref list"
  | Chi2Clip "ref list"
  | SpatialClip nat "ref list"

text \<open>
  The values \<^verbatim>\<open>lsstDebug.Info(__name__)\<close> gives that reach the control flow. An
  attribute that is not set is False, that is \<open>display = 0\<close>.
\<close>

record debugInfo =
  display :: int
  displayIterations :: bool
  pause :: bool

text \<open>
  The state a call works on: the determiner object, the stamp size of the candidate
  class, the candidate objects, the lines still to be read from standard input (each
  line as the words \<^verbatim>\<open>raw_input().strip().split()\<close> gives), and the trace.
  The stamp size is one setting shared by all the candidates (see \<open>setHeight\<close> below).
\<close>

record state =
  self :: PcaPsfDeterminer
  stampHeight :: int
  stampWidth :: int
  heap :: heap
  stdin :: "string list list"
  trace :: "event list"

text \<open>
  The library the method calls. The fitting routines change the candidates (they set
  the chi-square of each), so they return the store they leave.
  \<^item> \<open>getA ixx iyy ixy\<close>: \<^verbatim>\<open>afwEll.Axes(afwEll.Quadrupole(ixx, iyy, ixy)).getA()\<close>;
  \<^item> \<open>getDimensions\<close>: \<^verbatim>\<open>exposure.getDimensions()\<close>;
  \<^item> \<open>SpatialCellSet sizeX sizeY\<close>: the empty cell set over the exposure's bounding box;
  \<^item> \<open>insertCandidate\<close>: \<^verbatim>\<open>psfCellSet.insertCandidate(psfCandidate)\<close>;
  \<^item> \<open>getImage c width height\<close>: \<^verbatim>\<open>cand.getImage()\<close>, \<open>None\<close> when it raises;
  \<^item> \<open>makeStatistics\<close>: the pair (MEANCLIP, STDEVCLIP) of \<^verbatim>\<open>afwMath.makeStatistics\<close>;
  \<^item> \<open>PSFSTAR\<close>: \<^verbatim>\<open>algorithmsLib.Flags.PSFSTAR\<close>;
  \<^item> \<open>numpy_median\<close>, \<open>numpy_sqrt\<close>: \<^verbatim>\<open>numpy.median\<close> of an array of doubles and
    \<^verbatim>\<open>numpy.sqrt\<close> of a double;
  \<^item> \<open>float_mul\<close>, \<open>float_add\<close>: the product and the sum of two doubles;
  \<^item> \<open>sortNaN\<close>: the order \<^verbatim>\<open>list.sort\<close> leaves a list in when one of its keys is NaN
    (see \<open>sort_chi2\<close> below).
\<close>

record externals =
  getA :: "pyfloat \<Rightarrow> pyfloat \<Rightarrow> pyfloat \<Rightarrow> pyfloat"
  getDimensions :: "int \<times> int"
  SpatialCellSet :: "int \<Rightarrow> int \<Rightarrow> cellSet"
  insertCandidate :: "heap \<Rightarrow> cellSet \<Rightarrow> ref \<Rightarrow> cellSet"
  createKernelFromPsfCandidates ::
    "heap \<Rightarrow> cellSet \<Rightarrow> int \<times> int \<Rightarrow> int \<Rightarrow> int \<Rightarrow> int \<Rightarrow> int \<Rightarrow> bool \<Rightarrow> kernel \<times> real list \<times> heap"
  countPsfCandidates :: "heap \<Rightarrow> cellSet \<Rightarrow> int \<Rightarrow> int"
  fitSpatialKernelFromPsfCandidates ::
    "kernel \<Rightarrow> heap \<Rightarrow> cellSet \<Rightarrow> bool \<Rightarrow> int \<Rightarrow> real \<Rightarrow> real \<Rightarrow> kernel \<times> real \<times> heap"
  getImage :: "candidate \<Rightarrow> int \<Rightarrow> int \<Rightarrow> image option"
  fitKernelParamsToImage :: "kernel \<Rightarrow> image \<Rightarrow> real \<times> real \<Rightarrow> real list \<times> image list"
  makeStatistics :: "real list \<Rightarrow> real \<times> real"
  PSFSTAR :: int
  numpy_median :: "pyfloat list \<Rightarrow> pyfloat"
  numpy_sqrt :: "pyfloat \<Rightarrow> pyfloat"
  float_mul :: "pyfloat \<Rightarrow> pyfloat \<Rightarrow> pyfloat"
  float_add :: "pyfloat \<Rightarrow> pyfloat \<Rightarrow> pyfloat"
  sortNaN :: "pyfloat list \<Rightarrow> nat \<Rightarrow> nat"

subsection \<open>Numbers\<close>

text \<open>
  \<^verbatim>\<open>int(x)\<close> of a float truncates towards zero; it raises ValueError for NaN and
  OverflowError for an infinity.
\<close>

definition py_int :: "real \<Rightarrow> int" where
  "py_int x = (if 0 \<le> x then \<lfloor>x\<rfloor> else \<lceil>x\<rceil>)"

fun int_of_float :: "pyfloat \<Rightarrow> error + int" where
  "int_of_float (Float x) = Inr (py_int x)"
| "int_of_float NaN = Inl ValueError"
| "int_of_float PosInf = Inl OverflowError"
| "int_of_float NegInf = Inl OverflowError"

text \<open>
  \<^verbatim>\<open>numBad = int(len(badCandidates) * (iter + 1) / self._nIterForPsf + 0.5)\<close>. The
  three operands of the quotient are Python 2 ints and the module does not import
  \<^verbatim>\<open>division\<close> from \<^verbatim>\<open>__future__\<close>, so \<^verbatim>\<open>/\<close> is the floor division of integers; the
  result becomes a float only when 0.5 is added, and that sum of an integer and a half
  is exact.
\<close>

definition numBad :: "int \<Rightarrow> int \<Rightarrow> int \<Rightarrow> int" where
  "numBad len iter nIter = py_int (of_int (len * (iter + 1) div nIter) + 0.5)"

text \<open>
  \<^verbatim>\<open>list.sort(key=..., reverse=True)\<close> for keys that \<open>lt\<close> orders (no key is NaN): the
  stable sort into descending order of the keys, here by insertion. It is used for such
  keys only.
\<close>

fun insert_reverse :: "('k \<Rightarrow> 'k \<Rightarrow> bool) \<Rightarrow> ('a \<Rightarrow> 'k) \<Rightarrow> 'a \<Rightarrow> 'a list \<Rightarrow> 'a list" where
  "insert_reverse lt key x [] = [x]"
| "insert_reverse lt key x (y # ys) =
     (if lt (key y) (key x) then x # y # ys else y # insert_reverse lt key x ys)"

definition sort_reverse :: "('k \<Rightarrow> 'k \<Rightarrow> bool) \<Rightarrow> ('a \<Rightarrow> 'k) \<Rightarrow> 'a list \<Rightarrow> 'a list" where
  "sort_reverse lt key xs = foldl (\<lambda>acc x. insert_reverse lt key x acc) [] xs"

subsection \<open>The cells\<close>

text \<open>
  \<^verbatim>\<open>cell.begin(ignoreBad)\<close> of afw's SpatialCell is not among the sources. Its
  argument is read as the method's own comments at its calls say:
  \<^verbatim>\<open>cell.begin(False): # include bad candidates\<close>,
  \<^verbatim>\<open>cell.begin(False):  # don't ignore BAD stars\<close> and
  \<^verbatim>\<open>cell.begin(True):  # do ignore BAD stars\<close>. This is also the reading under which
  the final counts are the spec's: every candidate is counted as available and the
  candidates that are not BAD as good.
\<close>

definition begin_cell :: "heap \<Rightarrow> bool \<Rightarrow> ref list \<Rightarrow> ref list" where
  "begin_cell h ignoreBad cell =
     (if ignoreBad then filter (\<lambda>r. getStatus (h r) \<noteq> BAD) cell else cell)"

text \<open>
  \<^verbatim>\<open>for cell in psfCellSet.getCellList(): for cand in cell.begin(ignoreBad)\<close>: the
  candidates in the order the two loops visit them.
\<close>

definition candidatesOf :: "heap \<Rightarrow> bool \<Rightarrow> cellSet \<Rightarrow> ref list" where
  "candidatesOf h ignoreBad cs = concat (map (begin_cell h ignoreBad) cs)"

definition setStatus :: "status \<Rightarrow> heap \<Rightarrow> ref \<Rightarrow> heap" where
  "setStatus s h r = h(r := (h r)\<lparr>getStatus := s\<rparr>)"

definition setStatusAll :: "status \<Rightarrow> ref list \<Rightarrow> heap \<Rightarrow> heap" where
  "setStatusAll s rs h = foldl (setStatus s) h rs"

definition statusesOf :: "heap \<Rightarrow> cellSet \<Rightarrow> status list list" where
  "statusesOf h cs = map (map (\<lambda>r. getStatus (h r))) cs"

definition logEvent :: "event \<Rightarrow> state \<Rightarrow> state" where
  "logEvent e st = st\<lparr>trace := trace st @ [e]\<rparr>"

text \<open>
  Modelled from the spec: \<^verbatim>\<open>setHeight\<close> and \<^verbatim>\<open>setWidth\<close> of a PSF candidate, which are
  not among the sources. The method calls them on \<^verbatim>\<open>psfCandidateList[0]\<close> only
  (\<^verbatim>\<open># Set size of image returned around candidate\<close>), and the specification says of
  this step that the stamp dimensions of every candidate are set to the computed size. So
  the stamp size is a setting of the candidate class, shared by all the candidates, and
  the two setters change it.
\<close>

definition setHeight :: "int \<Rightarrow> state \<Rightarrow> state" where
  "setHeight k st = logEvent (SetHeight k) (st\<lparr>stampHeight := k\<rparr>)"

definition setWidth :: "int \<Rightarrow> state \<Rightarrow> state" where
  "setWidth k st = logEvent (SetWidth k) (st\<lparr>stampWidth := k\<rparr>)"

subsection \<open>The fit\<close>

text \<open>
  \<^verbatim>\<open>_fitPsf(self, exposure, psfCellSet)\<close>. The eigenvalues are divided by the float
  \<^verbatim>\<open>countPsfCandidates(...)*nu\<close>, which raises when that is zero (and there is an
  eigenvalue to divide).
\<close>

definition fitPsf :: "externals \<Rightarrow> cellSet \<Rightarrow> state \<Rightarrow> (error + kernel \<times> real list \<times> real) \<times> state" where
  "fitPsf ext psfCellSet st0 =
     (let st = logEvent (FitPsf (statusesOf (heap st0) psfCellSet)) st0;
          s = self st;
          (kern, eigenValues, h1) =
            createKernelFromPsfCandidates ext (heap st) psfCellSet (getDimensions ext)
              (nEigenComponents s) (spatialOrder s) (kernelSize s) (nStarPerCell s) (constantWeight s);
          st1 = st\<lparr>heap := h1\<rparr>;
          size = kernelSize s + 2 * borderWidth s;
          nu = size * size - 1;
          n = countPsfCandidates ext h1 psfCellSet (nStarPerCell s)
      in if eigenValues \<noteq> [] \<and> n * nu = 0 then (Inl ZeroDivisionError, st1)
         else
           (let eigenValues' = map (\<lambda>l. l / of_int (n * nu)) eigenValues;
                (kern', chi2, h2) =
                  fitSpatialKernelFromPsfCandidates ext kern h1 psfCellSet (nonLinearSpatialFit s)
                    (nStarPerCellSpatialFit s) (tolerance s) (lambda s)
            in (Inr (kern', eigenValues', chi2), st1\<lparr>heap := h2\<rparr>)))"

subsection \<open>Clipping on the chi-square\<close>

text \<open>
  The pool: \<^verbatim>\<open>rchi2 < 0 or rchi2 > self._reducedChi2ForPsfCandidates or numpy.isnan(rchi2)\<close>
  over \<^verbatim>\<open>cell.begin(False)\<close> of every cell.
\<close>

definition chi2BadCandidates :: "PcaPsfDeterminer \<Rightarrow> heap \<Rightarrow> cellSet \<Rightarrow> ref list" where
  "chi2BadCandidates s h cs =
     filter (\<lambda>r. let rchi2 = getChi2 (h r)
                 in float_lt rchi2 (Float 0) \<or> float_gt rchi2 (Float (reducedChi2ForPsfCandidates s)) \<or>
                    isnan rchi2)
       (candidatesOf h False cs)"

text \<open>
  \<^verbatim>\<open>badCandidates.sort(key=lambda x: x.getChi2(), reverse=True)\<close>. The pool takes the
  candidates whose chi-square is NaN. When no key is NaN the result is the stable sort
  into descending order. With a NaN among the keys every comparison with it is false, the
  keys have no order, and the list Python leaves is a permutation of the pool that
  depends on its sorting algorithm, which is not modelled: the candidates are listed by
  the rank \<open>sortNaN\<close> gives to their positions (those of one rank in the order of the
  pool). Every permutation of the pool is of this form, for some ranks.
\<close>

definition sort_chi2 :: "externals \<Rightarrow> heap \<Rightarrow> ref list \<Rightarrow> ref list" where
  "sort_chi2 ext h badCandidates =
     (let keys = map (\<lambda>r. getChi2 (h r)) badCandidates
      in if list_ex isnan keys
         then map (\<lambda>i. badCandidates ! i) (sort_key (sortNaN ext keys) [0..<length badCandidates])
         else sort_reverse float_lt (\<lambda>r. getChi2 (h r)) badCandidates)"

text \<open>
  The candidates the step sets BAD: \<^verbatim>\<open>zip(range(numBad), badCandidates)\<close> after the
  sort, that is the first \<open>numBad\<close> of the sorted pool.
\<close>

definition chi2Clipped :: "externals \<Rightarrow> PcaPsfDeterminer \<Rightarrow> int \<Rightarrow> heap \<Rightarrow> cellSet \<Rightarrow> ref list" where
  "chi2Clipped ext s iter h cs =
     (let badCandidates = sort_chi2 ext h (chi2BadCandidates s h cs)
      in take (nat (numBad (int (length badCandidates)) iter (nIterForPsf s))) badCandidates)"

text \<open>
  The two steps of an iteration that come between the fit and the spatial residuals,
  as changes of the state: lines 203 to 206 (every candidate of \<^verbatim>\<open>cell.begin(False)\<close>
  is set UNKNOWN) and lines 211 to 226 (the clipping on the chi-square).
\<close>

definition resetStatus :: "cellSet \<Rightarrow> state \<Rightarrow> state" where
  "resetStatus psfCellSet st =
     (let everyone = candidatesOf (heap st) False psfCellSet
      in logEvent (ResetStatus everyone) (st\<lparr>heap := setStatusAll UNKNOWN everyone (heap st)\<rparr>))"

definition chi2Clip :: "externals \<Rightarrow> cellSet \<Rightarrow> int \<Rightarrow> state \<Rightarrow> state" where
  "chi2Clip ext psfCellSet iter st =
     (let clipped = chi2Clipped ext (self st) iter (heap st) psfCellSet
      in logEvent (Chi2Clip clipped) (st\<lparr>heap := setStatusAll BAD clipped (heap st)\<rparr>))"

subsection \<open>Clipping on the spatial fit\<close>

text \<open>
  Lines 250 to 262, for one candidate with the image \<open>im\<close> and the centre \<open>(x, y)\<close>: the
  parameters of the fit of the kernel to the image, the amplitude \<open>amp\<close> (each parameter
  times the sum of its basis kernel, added up), the prediction of the spatial model, and
  the row \<^verbatim>\<open>[a / amp - p for a, p in zip(params, predict)]\<close>. \<^verbatim>\<open>a / amp\<close> divides
  floats, and raises when \<open>amp\<close> is zero.
\<close>

definition amplitude :: "real list \<Rightarrow> image list \<Rightarrow> real" where
  "amplitude params kernels = sum_list (map (\<lambda>(p, k). p * getSum k) (zip params kernels))"

definition residualRow :: "externals \<Rightarrow> kernel \<Rightarrow> image \<Rightarrow> real \<Rightarrow> real \<Rightarrow> error + real list" where
  "residualRow ext kern im x y =
     (let (params, kernels) = fitKernelParamsToImage ext kern im (x, y);
          amp = amplitude params kernels;
          predict = map (\<lambda>k. getSpatialFunction kern k x y) [0..<getNKernelParameters kern]
      in if amp = 0 \<and> zip params predict \<noteq> [] then Inl ZeroDivisionError
         else Inr (map (\<lambda>(a, p). a / amp - p) (zip params predict)))"

text \<open>
  The residuals of the candidates \<^verbatim>\<open>cell.begin(False)\<close> gives, in order, and the list of
  the candidates they belong to; a candidate whose \<^verbatim>\<open>getImage()\<close> raises is passed over.
\<close>

fun spatialResiduals ::
  "externals \<Rightarrow> kernel \<Rightarrow> int \<Rightarrow> int \<Rightarrow> heap \<Rightarrow> ref list \<Rightarrow> error + real list list \<times> ref list" where
  "spatialResiduals ext kern w ht h [] = Inr ([], [])"
| "spatialResiduals ext kern w ht h (r # rs) =
     (case getImage ext (h r) w ht of
        None \<Rightarrow> spatialResiduals ext kern w ht h rs
      | Some im \<Rightarrow>
          (case residualRow ext kern im (getXCenter (h r)) (getYCenter (h r)) of
             Inl e \<Rightarrow> Inl e
           | Inr row \<Rightarrow>
               (case spatialResiduals ext kern w ht h rs of
                  Inl e \<Rightarrow> Inl e
                | Inr (residuals, candidates) \<Rightarrow> Inr (row # residuals, r # candidates))))"

text \<open>
  \<^verbatim>\<open>residuals[:,k]\<close> of \<^verbatim>\<open>numpy.array(residuals)\<close>: the array has two dimensions only
  when there is a row and all rows have one length, and the column must exist.
\<close>

definition column :: "real list list \<Rightarrow> nat \<Rightarrow> error + real list" where
  "column residuals k =
     (if residuals = [] \<or> list_ex (\<lambda>row. length row \<noteq> length (hd residuals)) residuals \<or>
         length (hd residuals) \<le> k
      then Inl IndexError else Inr (map (\<lambda>row. row ! k) residuals))"

definition spatialBadCandidates :: "PcaPsfDeterminer \<Rightarrow> real \<Rightarrow> real \<Rightarrow> real list \<Rightarrow> nat list" where
  "spatialBadCandidates s mean rms col =
     filter (\<lambda>i. \<bar>col ! i - mean\<bar> > spatialReject s * rms) [0..<length col]"

text \<open>
  The candidates one component sets BAD:
  \<^verbatim>\<open>zip(range(min(len(badCandidates), numBad)), badCandidates)\<close> after the sort. The
  keys of the sort are the distances \<^verbatim>\<open>numpy.fabs(residuals[x,k] - mean)\<close> that have
  passed the test \<^verbatim>\<open>> self._spatialReject * rms\<close>, which a NaN does not pass.
\<close>

definition spatialClipped :: "PcaPsfDeterminer \<Rightarrow> int \<Rightarrow> real \<Rightarrow> real \<Rightarrow> real list \<Rightarrow> ref list \<Rightarrow> ref list" where
  "spatialClipped s iter mean rms col candidates =
     (let badCandidates = sort_reverse (<) (\<lambda>i. \<bar>col ! i - mean\<bar>) (spatialBadCandidates s mean rms col);
          nb = numBad (int (length badCandidates)) iter (nIterForPsf s)
      in map (\<lambda>c. candidates ! c) (take (nat (min (int (length badCandidates)) nb)) badCandidates))"

text \<open>
  The body of \<^verbatim>\<open>for k in range(kernel.getNKernelParameters())\<close> for the column \<open>col\<close> of
  residuals of a component: the clipped mean and deviation, the floor
  \<^verbatim>\<open>rms = max(1.0e-4, rms)\<close>, and the candidates that are set BAD.
\<close>

definition componentClipped :: "externals \<Rightarrow> PcaPsfDeterminer \<Rightarrow> int \<Rightarrow> real list \<Rightarrow> ref list \<Rightarrow> ref list" where
  "componentClipped ext s iter col candidates =
     (let (mean, rms0) = makeStatistics ext col;
          rms = max (1 / 10000) rms0
      in spatialClipped s iter mean rms col candidates)"

text \<open>\<^verbatim>\<open>for k in range(kernel.getNKernelParameters())\<close>, over the components still to do.\<close>

fun spatialClip ::
  "externals \<Rightarrow> int \<Rightarrow> real list list \<Rightarrow> ref list \<Rightarrow> nat list \<Rightarrow> state \<Rightarrow> (error + unit) \<times> state" where
  "spatialClip ext iter residuals candidates [] st = (Inr (), st)"
| "spatialClip ext iter residuals candidates (k # ks) st =
     (case column residuals k of
        Inl e \<Rightarrow> (Inl e, st)
      | Inr col \<Rightarrow>
          (let clipped = componentClipped ext (self st) iter col candidates
           in spatialClip ext iter residuals candidates ks
                (logEvent (SpatialClip k clipped) (st\<lparr>heap := setStatusAll BAD clipped (heap st)\<rparr>))))"

subsection \<open>The prompt\<close>

text \<open>
  The local variables of \<^verbatim>\<open>determinePsf\<close> that steer the loop: the debugging values
  (the method changes \<open>display\<close> and \<open>pause\<close>) and the last reply.
\<close>

record locals = debugInfo +
  reply :: string

text \<open>
  The \<^verbatim>\<open>while True\<close> loop around \<^verbatim>\<open>raw_input("Next iteration? [ynchpqs] ")\<close>, over the
  lines still to be read. At the end of the input \<^verbatim>\<open>raw_input\<close> raises EOFError and the
  reply is \<^verbatim>\<open>"n"\<close>. The reply \<^verbatim>\<open>"h"\<close>, a reply that is not recognised and \<^verbatim>\<open>"s"\<close> with a
  file name ask again; \<^verbatim>\<open>"s"\<close> alone raises at \<^verbatim>\<open>args.pop(0)\<close>. The result is the reply,
  \<open>pause\<close> and \<open>display\<close>, beside the input left.
\<close>

fun promptLoop ::
  "string list list \<Rightarrow> bool \<Rightarrow> int \<Rightarrow> (error + string \<times> bool \<times> int) \<times> string list list" where
  "promptLoop [] pause0 display0 = (Inr (''n'', pause0, display0), [])"
| "promptLoop (line # rest) pause0 display0 =
     (let reply0 = (case line of [] \<Rightarrow> [] | w # ws \<Rightarrow> w);
          args = (case line of [] \<Rightarrow> [] | w # ws \<Rightarrow> ws)
      in if reply0 \<in> set [[], ''c'', ''h'', ''n'', ''p'', ''q'', ''s'', ''y''] then
           (if reply0 = ''c'' then (Inr (reply0, False, display0), rest)
            else if reply0 = ''h'' then promptLoop rest pause0 display0
            else if reply0 = ''p'' then (Inr (reply0, pause0, display0), rest)
            else if reply0 = ''q'' then (Inr (reply0, pause0, 0), rest)
            else if reply0 = ''s'' then
              (case args of
                 [] \<Rightarrow> (Inl IndexError, rest)
               | fileName # others \<Rightarrow> promptLoop rest pause0 display0)
            else (Inr (reply0, pause0, display0), rest))
         else promptLoop rest pause0 display0)"

subsection \<open>One iteration\<close>

text \<open>
  The body of \<^verbatim>\<open>for iter in range(self._nIterForPsf)\<close>, in the order of the source: the
  fit, the reset of every candidate to UNKNOWN, the clipping on the chi-square, the
  clipping on the spatial fit, and with \<^verbatim>\<open>display and displayIterations\<close> and \<open>pause\<close> the
  prompt (the two tests are nested in the source, with display calls between them). The boolean of the result says that the iteration ended in \<^verbatim>\<open>break\<close>
  (\<^verbatim>\<open>if reply == "n": break\<close>).
\<close>

definition psfIteration ::
  "externals \<Rightarrow> cellSet \<Rightarrow> int \<Rightarrow> locals \<Rightarrow> state \<Rightarrow> (error + locals \<times> bool) \<times> state" where
  "psfIteration ext psfCellSet iter loc st0 =
     (case fitPsf ext psfCellSet (logEvent (BeginIteration iter) st0) of
        (Inl e, st1) \<Rightarrow> (Inl e, st1)
      | (Inr (psf, eigenValues, fitChi2), st1) \<Rightarrow>
          (let st2 = resetStatus psfCellSet st1;
               st3 = chi2Clip ext psfCellSet iter st2
           in case spatialResiduals ext psf (stampWidth st3) (stampHeight st3) (heap st3)
                     (candidatesOf (heap st3) False psfCellSet) of
                Inl e \<Rightarrow> (Inl e, st3)
              | Inr (residuals, candidates) \<Rightarrow>
                  (case spatialClip ext iter residuals candidates [0..<getNKernelParameters psf] st3 of
                     (Inl e, st4) \<Rightarrow> (Inl e, st4)
                   | (Inr u, st4) \<Rightarrow>
                       (if display loc \<noteq> 0 \<and> displayIterations loc \<and> pause loc then
                          (case promptLoop (stdin st4) (pause loc) (display loc) of
                             (Inl e, rest) \<Rightarrow> (Inl e, st4\<lparr>stdin := rest\<rparr>)
                           | (Inr (reply1, pause1, display1), rest) \<Rightarrow>
                               (Inr (loc\<lparr>display := display1, pause := pause1, reply := reply1\<rparr>,
                                     reply1 = ''n''),
                                st4\<lparr>stdin := rest\<rparr>))
                        else (Inr (loc, False), st4)))))"

text \<open>The loop, over the values of \<^verbatim>\<open>iter\<close> still to come.\<close>

fun psfIterations ::
  "externals \<Rightarrow> cellSet \<Rightarrow> int list \<Rightarrow> locals \<Rightarrow> state \<Rightarrow> (error + locals) \<times> state" where
  "psfIterations ext psfCellSet [] loc st = (Inr loc, st)"
| "psfIterations ext psfCellSet (iter # iters) loc st =
     (case psfIteration ext psfCellSet iter loc st of
        (Inl e, st1) \<Rightarrow> (Inl e, st1)
      | (Inr (loc1, stop), st1) \<Rightarrow>
          (if stop then (Inr loc1, st1) else psfIterations ext psfCellSet iters loc1 st1))"

text \<open>\<^verbatim>\<open>range(n)\<close> of Python 2: empty when \<open>n\<close> is not positive.\<close>

definition py_range :: "int \<Rightarrow> int list" where
  "py_range n = map int [0..<nat n]"

subsection \<open>The size of the kernel\<close>

text \<open>
  Lines 125 to 133: the new value of \<^verbatim>\<open>self._kernelSize\<close>, from the old one and the
  semi-major axes of the candidates. The float
  \<^verbatim>\<open>self._kernelSize * numpy.sqrt(numpy.median(sizes)) + 0.5\<close> is computed in doubles;
  \<^verbatim>\<open>int\<close> of it raises when it is NaN (as \<^verbatim>\<open>numpy.sqrt\<close> of a negative median is) or
  infinite.
\<close>

definition newKernelSize :: "externals \<Rightarrow> PcaPsfDeterminer \<Rightarrow> pyfloat list \<Rightarrow> error + int" where
  "newKernelSize ext s sizes =
     (if kernelSize s \<ge> 15 then Inr (kernelSize s)
      else
        (case int_of_float
                (float_add ext
                   (float_mul ext (Float (of_int (kernelSize s))) (numpy_sqrt ext (numpy_median ext sizes)))
                   (Float (1 / 2))) of
           Inl e \<Rightarrow> Inl e
         | Inr n \<Rightarrow>
             (let k0 = 2 * n + 1;
                  k1 = (if k0 < kernelSizeMin s then kernelSizeMin s else k0);
                  k2 = (if k1 > kernelSizeMax s then kernelSizeMax s else k1)
              in Inr k2)))"

definition candidateSizes :: "externals \<Rightarrow> heap \<Rightarrow> ref list \<Rightarrow> pyfloat list" where
  "candidateSizes ext h psfCandidateList =
     map (\<lambda>r. let src = getSource (h r) in getA ext (getIxx src) (getIyy src) (getIxy src))
       psfCandidateList"

subsection \<open>determinePsf\<close>

text \<open>
  The end of the method: every candidate that is not BAD (\<^verbatim>\<open>cell.begin(True)\<close>) has the
  flag PSFSTAR set on its source. The two counts go to the optional rating set only,
  which is left out.
\<close>

definition flagPsfStars :: "externals \<Rightarrow> cellSet \<Rightarrow> heap \<Rightarrow> heap" where
  "flagPsfStars ext cs h =
     foldl (\<lambda>h1 r. h1(r := (h1 r)\<lparr>getSource := (getSource (h1 r))
                \<lparr>getFlagForDetection := or (getFlagForDetection (getSource (h1 r))) (PSFSTAR ext)\<rparr>\<rparr>))
       h (candidatesOf h True cs)"

definition numAvailStars :: "heap \<Rightarrow> cellSet \<Rightarrow> nat" where
  "numAvailStars h cs = length (candidatesOf h False cs)"

definition numGoodStars :: "heap \<Rightarrow> cellSet \<Rightarrow> nat" where
  "numGoodStars h cs = length (candidatesOf h True cs)"

text \<open>
  The part of the method up to the end of the loop: the check of the candidate list,
  the cell set, the size of the kernel and of the stamps, the iterations. It gives the
  cell set and the local variables.
\<close>

definition determinePsfLoop ::
  "externals \<Rightarrow> debugInfo \<Rightarrow> ref list \<Rightarrow> state \<Rightarrow> (error + cellSet \<times> locals) \<times> state" where
  "determinePsfLoop ext dbg psfCandidateList st =
     (if length psfCandidateList = 0 then (Inl (RuntimeError ''No PSF candidates supplied.''), st)
      else
        (let psfCellSet = foldl (insertCandidate ext (heap st))
                            (SpatialCellSet ext (sizeCellX (self st)) (sizeCellY (self st)))
                            psfCandidateList;
             sizes = candidateSizes ext (heap st) psfCandidateList
         in case newKernelSize ext (self st) sizes of
              Inl e \<Rightarrow> (Inl e, st)
            | Inr ks \<Rightarrow>
                (let st1 = st\<lparr>self := (self st)\<lparr>kernelSize := ks\<rparr>\<rparr>;
                     st2 = setHeight (kernelSize (self st1)) st1;
                     st3 = setWidth (kernelSize (self st2)) st2;
                     loc = \<lparr>display = display dbg, displayIterations = displayIterations dbg,
                            pause = (if display dbg > 1 then True else pause dbg), reply = ''y''\<rparr>
                 in case psfIterations ext psfCellSet (py_range (nIterForPsf (self st3))) loc st3 of
                      (Inl e, st4) \<Rightarrow> (Inl e, st4)
                    | (Inr loc1, st4) \<Rightarrow> (Inr (psfCellSet, loc1), st4))))"

text \<open>
  The whole method: after the loop one more fit (\<^verbatim>\<open># One last time, to take advantage
  of the last iteration\<close>), the flags, and \<^verbatim>\<open>return psf, psfCellSet\<close>.
\<close>

definition determinePsf ::
  "externals \<Rightarrow> debugInfo \<Rightarrow> ref list \<Rightarrow> state \<Rightarrow> (error + kernel \<times> cellSet) \<times> state" where
  "determinePsf ext dbg psfCandidateList st =
     (case determinePsfLoop ext dbg psfCandidateList st of
        (Inl e, st4) \<Rightarrow> (Inl e, st4)
      | (Inr (psfCellSet, loc1), st4) \<Rightarrow>
          (case fitPsf ext psfCellSet st4 of
             (Inl e, st5) \<Rightarrow> (Inl e, st5)
           | (Inr (psf, eigenValues, fitChi2), st5) \<Rightarrow>
               (Inr (psf, psfCellSet), st5\<lparr>heap := flagPsfStars ext psfCellSet (heap st5)\<rparr>)))"

subsection \<open>Reading the trace\<close>

fun isBeginIteration :: "event \<Rightarrow> bool" where
  "isBeginIteration (BeginIteration i) = True"
| "isBeginIteration e = False"

fun isFitPsf :: "event \<Rightarrow> bool" where
  "isFitPsf (FitPsf s) = True"
| "isFitPsf e = False"

fun isSetSize :: "event \<Rightarrow> bool" where
  "isSetSize (SetHeight k) = True"
| "isSetSize (SetWidth k) = True"
| "isSetSize e = False"

fun isSpatialClip :: "event \<Rightarrow> bool" where
  "isSpatialClip (SpatialClip k rs) = True"
| "isSpatialClip e = False"

fun isClip :: "event \<Rightarrow> bool" where
  "isClip (ResetStatus rs) = True"
| "isClip (Chi2Clip rs) = True"
| "isClip (SpatialClip k rs) = True"
| "isClip e = False"

text \<open>The candidates a call of the trace sets BAD.\<close>

fun clippedBy :: "event \<Rightarrow> ref list" where
  "clippedBy (Chi2Clip rs) = rs"
| "clippedBy (SpatialClip k rs) = rs"
| "clippedBy e = []"

text \<open>The events a step adds to the trace, and the number of iterations begun in them.\<close>

definition newEvents :: "state \<Rightarrow> state \<Rightarrow> event list" where
  "newEvents st st1 = drop (length (trace st)) (trace st1)"

definition iterationsRun :: "event list \<Rightarrow> nat" where
  "iterationsRun evs = length (filter isBeginIteration evs)"

definition fitsRun :: "event list \<Rightarrow> nat" where
  "fitsRun evs = length (filter isFitPsf evs)"
subsection \<open>When the method prompts\<close>

text \<open>
  The prompt is reached with \<^verbatim>\<open>display and displayIterations\<close> and \<open>pause\<close>, where
  \<^verbatim>\<open>if display > 1: pause = True\<close> has set \<open>pause\<close> before the loop.
\<close>

definition prompting :: "debugInfo \<Rightarrow> bool" where
  "prompting dbg = (display dbg \<noteq> 0 \<and> displayIterations dbg \<and> (display dbg > 1 \<or> pause dbg))"

subsection \<open>The formulas of the specification\<close>




subsection \<open>The ramp of the rejections\<close>

subsection \<open>An example run\<close>

text \<open>
  The inputs of the runs the theorems are tried on. The store holds three candidates,
  given as a list; their sources are round (\<open>Ixx = Iyy\<close>, \<open>Ixy = 0\<close>) with the second
  moments 1, 16 and 81, that is the semi-major axes 1, 4 and 9; their chi-squares are
  100, 50 and 1 and their centres are at \<open>x = 11\<close>, \<open>x = 1\<close> and \<open>x = -1\<close>.
\<close>

definition heapOf :: "candidate list \<Rightarrow> heap" where
  "heapOf cands r = cands ! r"

definition cand0 :: "real \<Rightarrow> real \<Rightarrow> real \<Rightarrow> status \<Rightarrow> candidate" where
  "cand0 a c x s =
     \<lparr>getSource = \<lparr>getId = 0, getIxx = Float a, getIyy = Float a, getIxy = Float 0, getFlagForDetection = 0\<rparr>,
      getXCenter = x, getYCenter = 0, getChi2 = Float c, getStatus = s\<rparr>"

definition heap0 :: "status \<Rightarrow> status \<Rightarrow> heap" where
  "heap0 s0 s1 = heapOf [cand0 1 100 11 s0, cand0 16 50 1 s1, cand0 81 1 (- 1) UNKNOWN]"

text \<open>
  The arithmetic of the example: on the finite floats that of the real numbers, without
  rounding error (the example has no other floats). \<open>median\<close> is the middle element of
  the sorted values, the mean of the two middle ones when their number is even.
\<close>

fun sqrt0 :: "pyfloat \<Rightarrow> pyfloat" where
  "sqrt0 (Float x) = (if x < 0 then NaN else Float (sqrt x))"
| "sqrt0 a = NaN"

fun mul0 :: "pyfloat \<Rightarrow> pyfloat \<Rightarrow> pyfloat" where
  "mul0 (Float x) (Float y) = Float (x * y)"
| "mul0 a b = NaN"

fun add0 :: "pyfloat \<Rightarrow> pyfloat \<Rightarrow> pyfloat" where
  "add0 (Float x) (Float y) = Float (x + y)"
| "add0 a b = NaN"

definition median :: "real list \<Rightarrow> real" where
  "median xs =
     (let s = sort xs; n = length s
      in if odd n then s ! (n div 2) else (s ! (n div 2 - 1) + s ! (n div 2)) / 2)"

fun finite_value :: "pyfloat \<Rightarrow> real option" where
  "finite_value (Float x) = Some x"
| "finite_value a = None"

definition median0 :: "pyfloat list \<Rightarrow> pyfloat" where
  "median0 xs = (case those (map finite_value xs) of None \<Rightarrow> NaN | Some rs \<Rightarrow> Float (median rs))"

text \<open>
  A library for the example: one cell that takes every candidate; a fit that gives a
  kernel of one component, whose spatial function is \<open>x\<close>, and leaves the chi-squares as
  they are; an image for every candidate whose centre is on the exposure (\<open>x \<ge> 0\<close>),
  fitted with the parameter 1 on a basis kernel of sum 1; the clipped mean 0 and
  deviation 1. The semi-major axis is the one of a round source. A list with a NaN key
  is left in its order by the sort.
\<close>

definition kernel0 :: kernel where
  "kernel0 = \<lparr>getNKernelParameters = 1, getSpatialFunction = (\<lambda>k x y. x)\<rparr>"

definition ext0 :: externals where
  "ext0 = \<lparr>getA = (\<lambda>ixx iyy ixy. sqrt0 ixx),
     getDimensions = (100, 100),
     SpatialCellSet = (\<lambda>sx sy. [[]]),
     insertCandidate = (\<lambda>h cs r. [concat cs @ [r]]),
     createKernelFromPsfCandidates = (\<lambda>h cs dims nE order ks nStar cw. (kernel0, [1], h)),
     countPsfCandidates = (\<lambda>h cs n. int (length (concat cs))),
     fitSpatialKernelFromPsfCandidates = (\<lambda>k h cs nl n tol lam. (k, 1, h)),
     getImage = (\<lambda>c w h. if getXCenter c < 0 then None else Some [[1]]),
     fitKernelParamsToImage = (\<lambda>k im ctr. ([1], [[[1]]])),
     makeStatistics = (\<lambda>col. (0, 1)),
     PSFSTAR = 1,
     numpy_median = median0,
     numpy_sqrt = sqrt0,
     float_mul = mul0,
     float_add = add0,
     sortNaN = (\<lambda>keys i. i)\<rparr>"

text \<open>
  A determiner with the base size \<open>ks\<close> of the kernel and \<open>K\<close> iterations; the threshold
  of the chi-square is 2.
\<close>

definition self0 :: "int \<Rightarrow> int \<Rightarrow> PcaPsfDeterminer" where
  "self0 ks K = \<lparr>nonLinearSpatialFit = False, nEigenComponents = 1, spatialOrder = 1, sizeCellX = 100, sizeCellY = 100,
     nStarPerCell = 0, kernelSize = ks, kernelSizeMin = 5, kernelSizeMax = 99, borderWidth = 0,
     nStarPerCellSpatialFit = 0, constantWeight = True, tolerance = 0, lambda = 0,
     reducedChi2ForPsfCandidates = 2, nIterForPsf = K, spatialReject = 3\<rparr>"

text \<open>The states of the example: two iterations, the stamp size \<open>sz\<close>.\<close>

definition state0 :: "int \<Rightarrow> int \<Rightarrow> status \<Rightarrow> status \<Rightarrow> string list list \<Rightarrow> event list \<Rightarrow> state" where
  "state0 ks sz s0 s1 inp tr = \<lparr>self = self0 ks 2, stampHeight = sz, stampWidth = sz,
      heap = heap0 s0 s1, stdin = inp, trace = tr\<rparr>"

text \<open>No display (the default), and the display with a prompt after each iteration.\<close>

definition dbg0 :: debugInfo where
  "dbg0 = \<lparr>display = 0, displayIterations = False, pause = False\<rparr>"


definition locals0 :: "debugInfo \<Rightarrow> locals" where
  "locals0 dbg = \<lparr>display = display dbg, displayIterations = displayIterations dbg,
                  pause = (if display dbg > 1 then True else pause dbg), reply = ''y''\<rparr>"






section \<open>Lemmas\<close>

lemma py_int_of_int_half: "0 \<le> n \<Longrightarrow> py_int (of_int n + 0.5) = n"
  unfolding py_int_def by (simp add: floor_unique)

lemma numBad_eq: "0 \<le> len \<Longrightarrow> 0 \<le> iter \<Longrightarrow> 0 < nIter \<Longrightarrow> numBad len iter nIter = len * (iter + 1) div nIter"
  unfolding numBad_def by (rule py_int_of_int_half) (simp add: pos_imp_zdiv_nonneg_iff)


lemma numBad_last: "0 \<le> len \<Longrightarrow> 0 < nIter \<Longrightarrow> numBad len (nIter - 1) nIter = len"
  by (simp add: numBad_eq)

lemma length_insert_reverse: "length (insert_reverse lt key x ys) = Suc (length ys)"
  by (induction ys) auto



lemma sort_reverse_snoc: "sort_reverse lt key (xs @ [x]) = insert_reverse lt key x (sort_reverse lt key xs)"
  by (simp add: sort_reverse_def)

lemma sort_reverse_Nil: "sort_reverse lt key [] = []"
  by (simp add: sort_reverse_def)

lemma length_sort_reverse: "length (sort_reverse lt key xs) = length xs"
  by (induction xs rule: rev_induct) (simp_all add: sort_reverse_snoc length_insert_reverse sort_reverse_Nil)








lemma fitPsf_frame:
  assumes "fitPsf ext cs st = (res, st1)"
  shows "trace st1 = trace st @ [FitPsf (statusesOf (heap st) cs)]"
    and "self st1 = self st" and "stampHeight st1 = stampHeight st"
    and "stampWidth st1 = stampWidth st" and "stdin st1 = stdin st"
  using assms
  by (auto simp: fitPsf_def logEvent_def Let_def split: prod.splits if_splits)

lemma fitPsf_error:
  "fitPsf ext cs st = (Inl e, st1) \<Longrightarrow> e = ZeroDivisionError"
  by (auto simp: fitPsf_def Let_def split: prod.splits if_splits)

lemma spatialClip_frame:
  "spatialClip ext iter residuals candidates ks st = (res, st1) \<Longrightarrow>
   (\<exists>evs. trace st1 = trace st @ evs \<and> list_all isSpatialClip evs) \<and>
   self st1 = self st \<and> stampHeight st1 = stampHeight st \<and>
   stampWidth st1 = stampWidth st \<and> stdin st1 = stdin st"
proof (induction ks arbitrary: st)
  case Nil
  then show ?case by auto
next
  case (Cons k ks)
  show ?case
  proof (cases "column residuals k")
    case (Inl e)
    with Cons.prems show ?thesis by auto
  next
    case (Inr col)
    define st2 where "st2 = logEvent (SpatialClip k (componentClipped ext (self st) iter col candidates))
        (st\<lparr>heap := setStatusAll BAD (componentClipped ext (self st) iter col candidates) (heap st)\<rparr>)"
    from Cons.prems Inr have "spatialClip ext iter residuals candidates ks st2 = (res, st1)"
      by (simp add: st2_def Let_def)
    from Cons.IH[OF this] show ?thesis
      by (auto simp: st2_def logEvent_def)
  qed
qed

lemma spatialClip_error:
  "spatialClip ext iter residuals candidates ks st = (Inl e, st1) \<Longrightarrow> e = IndexError"
proof (induction ks arbitrary: st)
  case Nil
  then show ?case by auto
next
  case (Cons k ks)
  then show ?case
    by (auto simp: column_def Let_def split: sum.splits prod.splits if_splits)
qed

lemma residualRow_error: "residualRow ext kern im x y = Inl e \<Longrightarrow> e = ZeroDivisionError"
  by (auto simp: residualRow_def Let_def split: prod.splits if_splits)

lemma spatialResiduals_error:
  "spatialResiduals ext kern w ht h rs = Inl e \<Longrightarrow> e = ZeroDivisionError"
  by (induction rs) (auto split: option.splits sum.splits prod.splits dest: residualRow_error)

lemma promptLoop_error:
  "promptLoop inp p d = (Inl e, rest) \<Longrightarrow> e = IndexError"
  by (induction inp p d rule: promptLoop.induct) (auto simp: Let_def split: if_splits list.splits)

lemma candidatesOf_False: "candidatesOf h False cs = concat cs"
  by (induction cs) (simp_all add: candidatesOf_def begin_cell_def)

lemma list_all_isSpatialClip_isClip: "list_all isSpatialClip evs \<Longrightarrow> list_all isClip evs"
proof (induction evs)
  case Nil
  show ?case by simp
next
  case (Cons e evs)
  then show ?case by (cases e) auto
qed

lemma resetStatus_frame:
  "self (resetStatus cs st) = self st" "stampHeight (resetStatus cs st) = stampHeight st"
  "stampWidth (resetStatus cs st) = stampWidth st" "stdin (resetStatus cs st) = stdin st"
  "trace (resetStatus cs st) = trace st @ [ResetStatus (concat cs)]"
  "heap (resetStatus cs st) = setStatusAll UNKNOWN (concat cs) (heap st)"
  by (simp_all add: resetStatus_def Let_def logEvent_def candidatesOf_False)

lemma chi2Clip_frame:
  "self (chi2Clip ext cs iter st) = self st" "stampHeight (chi2Clip ext cs iter st) = stampHeight st"
  "stampWidth (chi2Clip ext cs iter st) = stampWidth st" "stdin (chi2Clip ext cs iter st) = stdin st"
  "trace (chi2Clip ext cs iter st) = trace st @ [Chi2Clip (chi2Clipped ext (self st) iter (heap st) cs)]"
  "heap (chi2Clip ext cs iter st) = setStatusAll BAD (chi2Clipped ext (self st) iter (heap st) cs) (heap st)"
  by (simp_all add: chi2Clip_def Let_def logEvent_def)

text \<open>The state after the fit, the reset and the chi-square clipping of an iteration.\<close>

lemma psfIteration_cases:
  assumes run: "psfIteration ext cs iter loc st = (res, st1)"
  obtains
    (fit_raised) e where "res = Inl e"
      "trace st1 = trace st @ [BeginIteration iter, FitPsf (statusesOf (heap st) cs)]"
      "self st1 = self st" "stampHeight st1 = stampHeight st" "stampWidth st1 = stampWidth st"
  | (clipped) sp ha where
      "trace st1 = trace st @ [BeginIteration iter, FitPsf (statusesOf (heap st) cs),
          ResetStatus (concat cs),
          Chi2Clip (chi2Clipped ext (self st) iter (setStatusAll UNKNOWN (concat cs) ha) cs)] @ sp"
      "list_all isSpatialClip sp"
      "self st1 = self st" "stampHeight st1 = stampHeight st" "stampWidth st1 = stampWidth st"
      "\<And>e. res = Inl e \<Longrightarrow> e = ZeroDivisionError \<or> e = IndexError"
      "\<And>loc1 stop. res = Inr (loc1, stop) \<Longrightarrow>
          \<not> (display loc \<noteq> 0 \<and> displayIterations loc \<and> pause loc) \<Longrightarrow> loc1 = loc \<and> \<not> stop"
proof -
  define stb where "stb = logEvent (BeginIteration iter) st"
  obtain r1 sta where f: "fitPsf ext cs stb = (r1, sta)" by (cases "fitPsf ext cs stb")
  have tra: "trace sta = trace st @ [BeginIteration iter, FitPsf (statusesOf (heap st) cs)]"
    and fra: "self sta = self st" "stampHeight sta = stampHeight st" "stampWidth sta = stampWidth st"
    using fitPsf_frame[OF f] by (simp_all add: stb_def logEvent_def)
  show thesis
  proof (cases r1)
    case (Inl e)
    with run f have "res = Inl e" "st1 = sta"
      by (simp_all add: psfIteration_def stb_def)
    with tra fra show thesis by (intro fit_raised[where e=e]) simp_all
  next
    case (Inr triple)
    obtain psf eigenValues fitChi2 where triple: "triple = (psf, eigenValues, fitChi2)" by (cases triple)
    define st3 where "st3 = chi2Clip ext cs iter (resetStatus cs sta)"
    define cl where "cl = chi2Clipped ext (self st) iter (setStatusAll UNKNOWN (concat cs) (heap sta)) cs"
    have cl_eq: "cl = chi2Clipped ext (self st) iter (setStatusAll UNKNOWN (concat cs) (heap sta)) cs"
      by (simp add: cl_def)
    have tr3: "trace st3 = trace st @ [BeginIteration iter, FitPsf (statusesOf (heap st) cs),
          ResetStatus (concat cs), Chi2Clip cl]"
      and fr3: "self st3 = self st" "stampHeight st3 = stampHeight st" "stampWidth st3 = stampWidth st"
      by (simp_all add: st3_def cl_def chi2Clip_frame resetStatus_frame tra fra)
    define sres where "sres = spatialResiduals ext psf (stampWidth st3) (stampHeight st3) (heap st3) (concat cs)"
    have unfolded: "psfIteration ext cs iter loc st =
      (case sres of
         Inl e \<Rightarrow> (Inl e, st3)
       | Inr (residuals, candidates) \<Rightarrow>
           (case spatialClip ext iter residuals candidates [0..<getNKernelParameters psf] st3 of
              (Inl e, st4) \<Rightarrow> (Inl e, st4)
            | (Inr u, st4) \<Rightarrow>
                (if display loc \<noteq> 0 \<and> displayIterations loc \<and> pause loc then
                   (case promptLoop (stdin st4) (pause loc) (display loc) of
                      (Inl e, rest) \<Rightarrow> (Inl e, st4\<lparr>stdin := rest\<rparr>)
                    | (Inr (reply1, pause1, display1), rest) \<Rightarrow>
                        (Inr (loc\<lparr>display := display1, pause := pause1, reply := reply1\<rparr>,
                              reply1 = ''n''),
                         st4\<lparr>stdin := rest\<rparr>))
                 else (Inr (loc, False), st4))))"
      using f Inr triple
      unfolding psfIteration_def sres_def stb_def st3_def Let_def candidatesOf_False
      by simp
    show thesis
    proof (cases sres)
      case (Inl e)
      with unfolded run have "res = Inl e" "st1 = st3" by simp_all
      moreover from Inl have "e = ZeroDivisionError"
        unfolding sres_def by (rule spatialResiduals_error)
      ultimately show thesis
        using tr3 fr3 cl_eq by (intro clipped[where sp="[]" and ha="heap sta"]) simp_all
    next
      case (Inr pair)
      obtain residuals candidates where pair: "pair = (residuals, candidates)" by (cases pair)
      obtain r4 st4 where sc: "spatialClip ext iter residuals candidates [0..<getNKernelParameters psf] st3 = (r4, st4)"
        by (cases "spatialClip ext iter residuals candidates [0..<getNKernelParameters psf] st3")
      from spatialClip_frame[OF sc] obtain sp where
        sp: "trace st4 = trace st3 @ sp" "list_all isSpatialClip sp"
        and fr4: "self st4 = self st3" "stampHeight st4 = stampHeight st3" "stampWidth st4 = stampWidth st3"
        by auto
      have tr1: "trace st1 = trace st4" and fr1: "self st1 = self st4" "stampHeight st1 = stampHeight st4"
         "stampWidth st1 = stampWidth st4"
        using unfolded run Inr pair sc
        by (auto split: sum.splits prod.splits if_splits)
      have err: "e = ZeroDivisionError \<or> e = IndexError" if "res = Inl e" for e
        using unfolded run Inr pair sc that
        by (auto split: sum.splits prod.splits if_splits dest: spatialClip_error promptLoop_error)
      have noprompt: "loc1 = loc \<and> \<not> stop"
        if "res = Inr (loc1, stop)" "\<not> (display loc \<noteq> 0 \<and> displayIterations loc \<and> pause loc)" for loc1 stop
        using unfolded run Inr pair sc that
        by (auto split: sum.splits prod.splits if_splits)
      show thesis
        using tr1 fr1 sp fr4 tr3 fr3 cl_eq err noprompt
        by (intro clipped[where sp=sp and ha="heap sta"]) simp_all
    qed
  qed
qed

lemma list_all_isSpatialClip_notSetSize: "list_all isSpatialClip evs \<Longrightarrow> list_all (\<lambda>e. \<not> isSetSize e) evs"
proof (induction evs)
  case Nil
  show ?case by simp
next
  case (Cons e evs)
  then show ?case by (cases e) auto
qed

lemma filter_isSpatialClip_Begin: "list_all isSpatialClip evs \<Longrightarrow> filter isBeginIteration evs = []"
proof (induction evs)
  case Nil
  show ?case by simp
next
  case (Cons e evs)
  then show ?case by (cases e) auto
qed

lemma filter_isSpatialClip_Fit: "list_all isSpatialClip evs \<Longrightarrow> filter isFitPsf evs = []"
proof (induction evs)
  case Nil
  show ?case by simp
next
  case (Cons e evs)
  then show ?case by (cases e) auto
qed

text \<open>What one iteration adds to the trace, in the form the loop needs.\<close>

lemma psfIteration_events:
  assumes run: "psfIteration ext cs iter loc st = (res, st1)"
  shows "\<exists>evs. trace st1 = trace st @ evs \<and> list_all (\<lambda>e. \<not> isSetSize e) evs \<and>
           iterationsRun evs = 1 \<and> fitsRun evs = 1"
    and "self st1 = self st" and "stampHeight st1 = stampHeight st" and "stampWidth st1 = stampWidth st"
    and "\<And>e. res = Inl e \<Longrightarrow> e = ZeroDivisionError \<or> e = IndexError"
    and "\<And>loc1 stop. res = Inr (loc1, stop) \<Longrightarrow>
          \<not> (display loc \<noteq> 0 \<and> displayIterations loc \<and> pause loc) \<Longrightarrow> loc1 = loc \<and> \<not> stop"
proof -
  show "\<exists>evs. trace st1 = trace st @ evs \<and> list_all (\<lambda>e. \<not> isSetSize e) evs \<and>
           iterationsRun evs = 1 \<and> fitsRun evs = 1"
    using run
  proof (cases rule: psfIteration_cases)
    case (fit_raised e)
    then show ?thesis by (simp add: iterationsRun_def fitsRun_def)
  next
    case (clipped sp ha)
    then show ?thesis
      by (simp add: iterationsRun_def fitsRun_def list_all_isSpatialClip_notSetSize
            filter_isSpatialClip_Begin filter_isSpatialClip_Fit)
  qed
  show "self st1 = self st" using run by (cases rule: psfIteration_cases) simp_all
  show "stampHeight st1 = stampHeight st" using run by (cases rule: psfIteration_cases) simp_all
  show "stampWidth st1 = stampWidth st" using run by (cases rule: psfIteration_cases) simp_all
  show "e = ZeroDivisionError \<or> e = IndexError" if "res = Inl e" for e
    using run
  proof (cases rule: psfIteration_cases)
    case (fit_raised e')
    obtain r1 sta where f: "fitPsf ext cs (logEvent (BeginIteration iter) st) = (r1, sta)"
      by (cases "fitPsf ext cs (logEvent (BeginIteration iter) st)")
    show ?thesis
    proof (cases r1)
      case (Inl a)
      with f have "a = ZeroDivisionError" by (auto dest: fitPsf_error)
      with run f Inl that show ?thesis by (simp add: psfIteration_def)
    next
      case (Inr b)
      with run f that show ?thesis
        by (auto simp: psfIteration_def Let_def split: sum.splits prod.splits if_splits
              dest: spatialResiduals_error spatialClip_error promptLoop_error)
    qed
  next
    case (clipped sp ha)
    with that show ?thesis by simp
  qed
  show "loc1 = loc \<and> \<not> stop"
    if "res = Inr (loc1, stop)" "\<not> (display loc \<noteq> 0 \<and> displayIterations loc \<and> pause loc)" for loc1 stop
    using run
  proof (cases rule: psfIteration_cases)
    case (fit_raised e)
    with that show ?thesis by simp
  next
    case (clipped sp ha)
    with that show ?thesis by blast
  qed
qed

lemma psfIterations_events:
  "psfIterations ext cs iters loc st = (res, st1) \<Longrightarrow>
   (\<exists>evs. trace st1 = trace st @ evs \<and> list_all (\<lambda>e. \<not> isSetSize e) evs \<and>
          fitsRun evs = iterationsRun evs \<and> iterationsRun evs \<le> length iters \<and>
          ((\<exists>loc1. res = Inr loc1) \<and> \<not> (display loc \<noteq> 0 \<and> displayIterations loc \<and> pause loc)
             \<longrightarrow> iterationsRun evs = length iters)) \<and>
   self st1 = self st \<and> stampHeight st1 = stampHeight st \<and> stampWidth st1 = stampWidth st \<and>
   (\<forall>e. res = Inl e \<longrightarrow> e = ZeroDivisionError \<or> e = IndexError)"
proof (induction iters arbitrary: loc st)
  case Nil
  then show ?case by (auto simp: iterationsRun_def fitsRun_def)
next
  case (Cons iter iters)
  obtain r1 sta where it: "psfIteration ext cs iter loc st = (r1, sta)"
    by (cases "psfIteration ext cs iter loc st")
  from psfIteration_events(1)[OF it] obtain evs1 where
    ev1: "trace sta = trace st @ evs1" "list_all (\<lambda>e. \<not> isSetSize e) evs1"
         "iterationsRun evs1 = 1" "fitsRun evs1 = 1" by blast
  note fr1 = psfIteration_events(2-4)[OF it]
  show ?case
  proof (cases r1)
    case (Inl e)
    with Cons.prems it have "res = Inl e" "st1 = sta" by simp_all
    with ev1 fr1 psfIteration_events(5)[OF it] Inl show ?thesis by auto
  next
    case (Inr pair)
    obtain loc1 stop where pair: "pair = (loc1, stop)" by (cases pair)
    show ?thesis
    proof (cases stop)
      case True
      with Cons.prems it Inr pair have "res = Inr loc1" "st1 = sta" by simp_all
      moreover have "\<not> (\<not> (display loc \<noteq> 0 \<and> displayIterations loc \<and> pause loc))"
        using psfIteration_events(6)[OF it, of loc1 stop] Inr pair True by auto
      ultimately show ?thesis using ev1 fr1 by auto
    next
      case False
      with Cons.prems it Inr pair have rest: "psfIterations ext cs iters loc1 sta = (res, st1)" by simp
      from Cons.IH[OF rest] obtain evs2 where
        ev2: "trace st1 = trace sta @ evs2" "list_all (\<lambda>e. \<not> isSetSize e) evs2"
             "fitsRun evs2 = iterationsRun evs2" "iterationsRun evs2 \<le> length iters"
             "(\<exists>loc1. res = Inr loc1) \<and> \<not> (display loc1 \<noteq> 0 \<and> displayIterations loc1 \<and> pause loc1)
                \<longrightarrow> iterationsRun evs2 = length iters"
        and fr2: "self st1 = self sta" "stampHeight st1 = stampHeight sta" "stampWidth st1 = stampWidth sta"
        and er2: "\<forall>e. res = Inl e \<longrightarrow> e = ZeroDivisionError \<or> e = IndexError"
        by blast
      have same: "loc1 = loc" if "\<not> (display loc \<noteq> 0 \<and> displayIterations loc \<and> pause loc)"
        using psfIteration_events(6)[OF it, of loc1 stop] Inr pair that by auto
      have a1: "trace st1 = trace st @ (evs1 @ evs2)" using ev1 ev2 by simp
      have a2: "list_all (\<lambda>e. \<not> isSetSize e) (evs1 @ evs2)" using ev1 ev2 by simp
      have a3: "fitsRun (evs1 @ evs2) = iterationsRun (evs1 @ evs2)"
        using ev1 ev2 by (simp add: fitsRun_def iterationsRun_def)
      have a4: "iterationsRun (evs1 @ evs2) \<le> length (iter # iters)"
        using ev1 ev2 by (simp add: iterationsRun_def)
      have a5: "(\<exists>loc1. res = Inr loc1) \<and> \<not> (display loc \<noteq> 0 \<and> displayIterations loc \<and> pause loc)
             \<longrightarrow> iterationsRun (evs1 @ evs2) = length (iter # iters)"
        using ev1 ev2 same by (auto simp: iterationsRun_def)
      have a6: "self st1 = self st" "stampHeight st1 = stampHeight st" "stampWidth st1 = stampWidth st"
        using fr1 fr2 by simp_all
      show ?thesis
        apply (intro conjI exI[where x="evs1 @ evs2"])
        using a1 a2 a3 a4 a5 a6 er2 by simp_all
    qed
  qed
qed

lemma int_of_float_error: "int_of_float x = Inl e \<Longrightarrow> e = ValueError \<or> e = OverflowError"
  by (cases x) auto

lemma newKernelSize_error: "newKernelSize ext s sizes = Inl e \<Longrightarrow> e = ValueError \<or> e = OverflowError"
  by (auto simp: newKernelSize_def Let_def split: if_splits sum.splits dest: int_of_float_error)

lemma length_py_range: "length (py_range n) = nat n"
  by (simp add: py_range_def)


lemma determinePsfLoop_empty:
  "determinePsfLoop ext dbg [] st = (Inl (RuntimeError ''No PSF candidates supplied.''), st)"
  by (simp add: determinePsfLoop_def)

lemma determinePsfLoop_sizing_raised:
  "l \<noteq> [] \<Longrightarrow> newKernelSize ext (self st) (candidateSizes ext (heap st) l) = Inl e \<Longrightarrow>
   determinePsfLoop ext dbg l st = (Inl e, st)"
  by (simp add: determinePsfLoop_def Let_def)

lemma determinePsfLoop_events:
  assumes ne: "l \<noteq> []"
      and ks: "newKernelSize ext (self st) (candidateSizes ext (heap st) l) = Inr ks"
      and run: "determinePsfLoop ext dbg l st = (res, st1)"
  shows "\<exists>evs. trace st1 = trace st @ SetHeight ks # SetWidth ks # evs \<and>
           list_all (\<lambda>e. \<not> isSetSize e) evs \<and> fitsRun evs = iterationsRun evs \<and>
           iterationsRun evs \<le> nat (nIterForPsf (self st)) \<and>
           ((\<exists>r. res = Inr r) \<and> \<not> prompting dbg \<longrightarrow> iterationsRun evs = nat (nIterForPsf (self st)))"
    and "self st1 = (self st)\<lparr>kernelSize := ks\<rparr>"
    and "stampHeight st1 = ks" and "stampWidth st1 = ks"
    and "\<And>e. res = Inl e \<Longrightarrow> e = ZeroDivisionError \<or> e = IndexError"
proof -
  define cs where "cs = foldl (insertCandidate ext (heap st))
                            (SpatialCellSet ext (sizeCellX (self st)) (sizeCellY (self st))) l"
  define st3 where "st3 = st\<lparr>self := (self st)\<lparr>kernelSize := ks\<rparr>, stampHeight := ks, stampWidth := ks,
                          trace := trace st @ [SetHeight ks, SetWidth ks]\<rparr>"
  define loc where "loc = \<lparr>display = display dbg, displayIterations = displayIterations dbg,
                            pause = (if display dbg > 1 then True else pause dbg), reply = ''y''\<rparr>"
  obtain r4 st4 where loop: "psfIterations ext cs (py_range (nIterForPsf (self st))) loc st3 = (r4, st4)"
    by (cases "psfIterations ext cs (py_range (nIterForPsf (self st))) loc st3")
  have unfolded: "determinePsfLoop ext dbg l st =
      (case r4 of Inl e \<Rightarrow> (Inl e, st4) | Inr loc1 \<Rightarrow> (Inr (cs, loc1), st4))"
    using ne ks loop
    unfolding determinePsfLoop_def cs_def st3_def loc_def setHeight_def setWidth_def logEvent_def
    by (simp add: Let_def split: sum.splits)
  from run unfolded have st1: "st1 = st4" by (auto split: sum.splits)
  have res: "(\<exists>r. res = Inr r) = (\<exists>loc1. r4 = Inr loc1)" "\<And>e. res = Inl e \<Longrightarrow> r4 = Inl e"
    using run unfolded by (auto split: sum.splits)
  have pr: "(display loc \<noteq> 0 \<and> displayIterations loc \<and> pause loc) = prompting dbg"
    by (auto simp: loc_def prompting_def)
  from psfIterations_events[OF loop] obtain evs where
    evs: "trace st4 = trace st3 @ evs" "list_all (\<lambda>e. \<not> isSetSize e) evs"
         "fitsRun evs = iterationsRun evs"
         "iterationsRun evs \<le> length (py_range (nIterForPsf (self st)))"
         "(\<exists>loc1. r4 = Inr loc1) \<and> \<not> (display loc \<noteq> 0 \<and> displayIterations loc \<and> pause loc)
             \<longrightarrow> iterationsRun evs = length (py_range (nIterForPsf (self st)))"
    and fr: "self st4 = self st3" "stampHeight st4 = stampHeight st3" "stampWidth st4 = stampWidth st3"
    and er: "\<forall>e. r4 = Inl e \<longrightarrow> e = ZeroDivisionError \<or> e = IndexError"
    by blast
  show "\<exists>evs. trace st1 = trace st @ SetHeight ks # SetWidth ks # evs \<and>
           list_all (\<lambda>e. \<not> isSetSize e) evs \<and> fitsRun evs = iterationsRun evs \<and>
           iterationsRun evs \<le> nat (nIterForPsf (self st)) \<and>
           ((\<exists>r. res = Inr r) \<and> \<not> prompting dbg \<longrightarrow> iterationsRun evs = nat (nIterForPsf (self st)))"
    apply (intro exI[where x=evs] conjI)
    using evs st1 res(1) pr by (simp_all add: st3_def length_py_range)
  show "self st1 = (self st)\<lparr>kernelSize := ks\<rparr>" using fr st1 by (simp add: st3_def)
  show "stampHeight st1 = ks" using fr st1 by (simp add: st3_def)
  show "stampWidth st1 = ks" using fr st1 by (simp add: st3_def)
  show "e = ZeroDivisionError \<or> e = IndexError" if "res = Inl e" for e
    using res(2)[OF that] er by simp
qed

lemma getStatus_flagPsfStars: "getStatus (flagPsfStars ext cs h r) = getStatus (h r)"
proof -
  have "getStatus (foldl (\<lambda>h1 r. h1(r := (h1 r)\<lparr>getSource := (getSource (h1 r))
                \<lparr>getFlagForDetection := or (getFlagForDetection (getSource (h1 r))) (PSFSTAR ext)\<rparr>\<rparr>))
       h rs r) = getStatus (h r)" for rs
    by (induction rs arbitrary: h) auto
  then show ?thesis by (simp add: flagPsfStars_def)
qed

lemma statusesOf_flagPsfStars: "statusesOf (flagPsfStars ext cs h) cs1 = statusesOf h cs1"
  by (simp add: statusesOf_def getStatus_flagPsfStars)


subsection \<open>The method as a whole\<close>

lemma determinePsf_events:
  assumes ne: "l \<noteq> []"
      and ks: "newKernelSize ext (self st) (candidateSizes ext (heap st) l) = Inr ks"
      and run: "determinePsf ext dbg l st = (res, st1)"
  shows "\<exists>evs fin. trace st1 = trace st @ SetHeight ks # SetWidth ks # evs @ fin \<and>
           list_all (\<lambda>e. \<not> isSetSize e) (evs @ fin) \<and> fitsRun evs = iterationsRun evs \<and>
           iterationsRun evs \<le> nat (nIterForPsf (self st)) \<and>
           ((\<exists>r. res = Inr r) \<and> \<not> prompting dbg \<longrightarrow> iterationsRun evs = nat (nIterForPsf (self st))) \<and>
           iterationsRun fin = 0 \<and>
           ((\<exists>r. res = Inr r) \<longrightarrow> fitsRun fin = 1)"
    and "self st1 = (self st)\<lparr>kernelSize := ks\<rparr>"
    and "stampHeight st1 = ks" and "stampWidth st1 = ks"
    and "\<And>e. res = Inl e \<Longrightarrow> e = ZeroDivisionError \<or> e = IndexError"
proof -
  obtain r4 st4 where loop: "determinePsfLoop ext dbg l st = (r4, st4)"
    by (cases "determinePsfLoop ext dbg l st")
  from determinePsfLoop_events(1)[OF ne ks loop] obtain evs where
    evs: "trace st4 = trace st @ SetHeight ks # SetWidth ks # evs"
         "list_all (\<lambda>e. \<not> isSetSize e) evs" "fitsRun evs = iterationsRun evs"
         "iterationsRun evs \<le> nat (nIterForPsf (self st))"
         "(\<exists>r. r4 = Inr r) \<and> \<not> prompting dbg \<longrightarrow> iterationsRun evs = nat (nIterForPsf (self st))"
    by blast
  note fr4 = determinePsfLoop_events(2-4)[OF ne ks loop]
  note er4 = determinePsfLoop_events(5)[OF ne ks loop]
  have "(\<exists>evs fin. trace st1 = trace st @ SetHeight ks # SetWidth ks # evs @ fin \<and>
           list_all (\<lambda>e. \<not> isSetSize e) (evs @ fin) \<and> fitsRun evs = iterationsRun evs \<and>
           iterationsRun evs \<le> nat (nIterForPsf (self st)) \<and>
           ((\<exists>r. res = Inr r) \<and> \<not> prompting dbg \<longrightarrow> iterationsRun evs = nat (nIterForPsf (self st))) \<and>
           iterationsRun fin = 0 \<and>
           ((\<exists>r. res = Inr r) \<longrightarrow> fitsRun fin = 1)) \<and>
        self st1 = (self st)\<lparr>kernelSize := ks\<rparr> \<and> stampHeight st1 = ks \<and> stampWidth st1 = ks \<and>
        (\<forall>e. res = Inl e \<longrightarrow> e = ZeroDivisionError \<or> e = IndexError)"
  proof (cases r4)
    case (Inl e)
    with run loop have r: "res = Inl e" "st1 = st4" by (simp_all add: determinePsf_def)
    show ?thesis
      apply (rule conjI)
       apply (rule exI[where x=evs], rule exI[where x="[]"])
      using r evs fr4 er4[of e] Inl by (simp_all add: iterationsRun_def)
  next
    case (Inr pair)
    obtain cs loc where pair: "pair = (cs, loc)" by (cases pair)
    obtain r5 st5 where fit: "fitPsf ext cs st4 = (r5, st5)" by (cases "fitPsf ext cs st4")
    note fr5 = fitPsf_frame[OF fit]
    have tr1: "trace st1 = trace st5" and fr1: "self st1 = self st5" "stampHeight st1 = stampHeight st5"
      "stampWidth st1 = stampWidth st5"
      using run loop Inr pair fit by (auto simp: determinePsf_def split: sum.splits prod.splits)
    have rs: "(\<exists>r. res = Inr r) = (\<exists>r. r5 = Inr r)" "\<And>e. res = Inl e \<Longrightarrow> r5 = Inl e"
      using run loop Inr pair fit by (auto simp: determinePsf_def split: sum.splits prod.splits)
    have er: "e = ZeroDivisionError" if "res = Inl e" for e
      using rs(2)[OF that] fit by (auto dest: fitPsf_error)
    show ?thesis
      apply (rule conjI)
       apply (rule exI[where x=evs], rule exI[where x="[FitPsf (statusesOf (heap st4) cs)]"])
      using tr1 fr1 fr5 evs fr4 Inr er rs(1) by (auto simp: iterationsRun_def fitsRun_def)
  qed
  then show "\<exists>evs fin. trace st1 = trace st @ SetHeight ks # SetWidth ks # evs @ fin \<and>
           list_all (\<lambda>e. \<not> isSetSize e) (evs @ fin) \<and> fitsRun evs = iterationsRun evs \<and>
           iterationsRun evs \<le> nat (nIterForPsf (self st)) \<and>
           ((\<exists>r. res = Inr r) \<and> \<not> prompting dbg \<longrightarrow> iterationsRun evs = nat (nIterForPsf (self st))) \<and>
           iterationsRun fin = 0 \<and>
           ((\<exists>r. res = Inr r) \<longrightarrow> fitsRun fin = 1)"
    and "self st1 = (self st)\<lparr>kernelSize := ks\<rparr>"
    and "stampHeight st1 = ks" and "stampWidth st1 = ks"
    and "\<And>e. res = Inl e \<Longrightarrow> e = ZeroDivisionError \<or> e = IndexError"
    by blast+
qed

lemma determinePsf_sizing_raised:
  "l \<noteq> [] \<Longrightarrow> newKernelSize ext (self st) (candidateSizes ext (heap st) l) = Inl e \<Longrightarrow>
   determinePsf ext dbg l st = (Inl e, st)"
  by (simp add: determinePsf_def determinePsfLoop_sizing_raised)

lemma determinePsf_empty:
  "determinePsf ext dbg [] st = (Inl (RuntimeError ''No PSF candidates supplied.''), st)"
  by (simp add: determinePsf_def determinePsfLoop_empty)

lemma determinePsf_Inr_sized:
  assumes "determinePsf ext dbg l st = (Inr r, st1)"
  shows "l \<noteq> []" and "\<exists>ks. newKernelSize ext (self st) (candidateSizes ext (heap st) l) = Inr ks"
proof -
  show ne: "l \<noteq> []" using assms by (auto simp: determinePsf_empty)
  show "\<exists>ks. newKernelSize ext (self st) (candidateSizes ext (heap st) l) = Inr ks"
  proof (cases "newKernelSize ext (self st) (candidateSizes ext (heap st) l)")
    case (Inl e)
    from determinePsf_sizing_raised[OF ne Inl] assms show ?thesis by simp
  next
    case (Inr ks)
    then show ?thesis by blast
  qed
qed

lemma newEvents_append: "trace st1 = trace st @ evs \<Longrightarrow> newEvents st st1 = evs"
  by (simp add: newEvents_def)

lemma getStatus_setStatusAll:
  "getStatus (setStatusAll s rs h r) = (if r \<in> set rs then s else getStatus (h r))"
  unfolding setStatusAll_def
  by (induction rs arbitrary: h) (auto simp: setStatus_def)


lemma length_spatialClipped:
  "length (spatialClipped s iter mean rms col cands) =
     min (length (spatialBadCandidates s mean rms col))
         (nat (numBad (int (length (spatialBadCandidates s mean rms col))) iter (nIterForPsf s)))"
  by (simp add: spatialClipped_def Let_def length_sort_reverse min.commute)



lemma run_pair: "determinePsf ext dbg l st = (fst (determinePsf ext dbg l st), snd (determinePsf ext dbg l st))"
  by simp



subsection \<open>One round, step by step\<close>










lemma getStatus_resetStatus:
  "getStatus (heap (resetStatus cs st) c) = (if c \<in> set (concat cs) then UNKNOWN else getStatus (heap st c))"
  by (simp add: resetStatus_frame getStatus_setStatusAll)

lemma getStatus_chi2Clip:
  "getStatus (heap (chi2Clip ext cs iter st) c) =
     (if c \<in> set (chi2Clipped ext (self st) iter (heap st) cs) then BAD else getStatus (heap st c))"
  by (simp add: chi2Clip_frame getStatus_setStatusAll)

text \<open>The clipping on the spatial fit, when it raises nothing.\<close>

lemma spatialClip_completed:
  "spatialClip ext iter residuals candidates ks st = (Inr u, st1) \<Longrightarrow>
   trace st1 = trace st @
     map (\<lambda>k. SpatialClip k (componentClipped ext (self st) iter (map (\<lambda>row. row ! k) residuals) candidates)) ks \<and>
   (\<forall>k \<in> set ks. column residuals k = Inr (map (\<lambda>row. row ! k) residuals)) \<and>
   (\<forall>c. getStatus (heap st1 c) =
      (if \<exists>k \<in> set ks. c \<in> set (componentClipped ext (self st) iter (map (\<lambda>row. row ! k) residuals) candidates)
       then BAD else getStatus (heap st c)))"
proof (induction ks arbitrary: st)
  case Nil
  then show ?case by simp
next
  case (Cons k ks)
  let ?col = "map (\<lambda>row. row ! k) residuals"
  from Cons.prems have col: "column residuals k = Inr ?col"
    by (auto simp: column_def split: if_splits sum.splits)
  define cl where "cl = componentClipped ext (self st) iter ?col candidates"
  define st2 where "st2 = logEvent (SpatialClip k cl) (st\<lparr>heap := setStatusAll BAD cl (heap st)\<rparr>)"
  from Cons.prems col have rest: "spatialClip ext iter residuals candidates ks st2 = (Inr u, st1)"
    by (simp add: st2_def cl_def Let_def)
  have fr2: "self st2 = self st" "trace st2 = trace st @ [SpatialClip k cl]"
    "\<And>c. getStatus (heap st2 c) = (if c \<in> set cl then BAD else getStatus (heap st c))"
    by (simp_all add: st2_def logEvent_def getStatus_setStatusAll)
  from Cons.IH[OF rest] show ?case
    unfolding fr2 using col by (auto simp: cl_def)
qed

lemma clippedBy_SpatialClip: "concat (map clippedBy (map (\<lambda>k. SpatialClip k (f k)) ks)) = concat (map f ks)"
  by (induction ks) simp_all

text \<open>
  An iteration that raises nothing: the fit, the residuals of the spatial step, the
  calls it has made, and the statuses it leaves.
\<close>

lemma psfIteration_completed:
  assumes run: "psfIteration ext cs iter loc st = (Inr r, st1)"
  obtains psf eigenValues fitChi2 stf residuals candidates where
    "fitPsf ext cs (logEvent (BeginIteration iter) st) = (Inr (psf, eigenValues, fitChi2), stf)"
    "self stf = self st"
    "spatialResiduals ext psf (stampWidth st) (stampHeight st)
       (heap (chi2Clip ext cs iter (resetStatus cs stf))) (concat cs) = Inr (residuals, candidates)"
    "\<forall>k < getNKernelParameters psf. column residuals k = Inr (map (\<lambda>row. row ! k) residuals)"
    "newEvents st st1 =
       [BeginIteration iter, FitPsf (statusesOf (heap st) cs), ResetStatus (concat cs),
        Chi2Clip (chi2Clipped ext (self st) iter (heap (resetStatus cs stf)) cs)] @
       map (\<lambda>k. SpatialClip k (componentClipped ext (self st) iter (map (\<lambda>row. row ! k) residuals) candidates))
         [0..<getNKernelParameters psf]"
    "\<And>c. getStatus (heap st1 c) =
       (if \<exists>k < getNKernelParameters psf.
             c \<in> set (componentClipped ext (self st) iter (map (\<lambda>row. row ! k) residuals) candidates)
        then BAD else getStatus (heap (chi2Clip ext cs iter (resetStatus cs stf)) c))"
proof -
  define stb where "stb = logEvent (BeginIteration iter) st"
  obtain r1 stf where f: "fitPsf ext cs stb = (r1, stf)" by (cases "fitPsf ext cs stb")
  from run f obtain psf eigenValues fitChi2 where r1: "r1 = Inr (psf, eigenValues, fitChi2)"
    by (cases r1) (auto simp: psfIteration_def stb_def)
  have tra: "trace stf = trace st @ [BeginIteration iter, FitPsf (statusesOf (heap st) cs)]"
    and fra: "self stf = self st" "stampHeight stf = stampHeight st" "stampWidth stf = stampWidth st"
    using fitPsf_frame[OF f] by (simp_all add: stb_def logEvent_def)
  define st3 where "st3 = chi2Clip ext cs iter (resetStatus cs stf)"
  have fr3: "self st3 = self st" "stampHeight st3 = stampHeight st" "stampWidth st3 = stampWidth st"
    and tr3: "trace st3 = trace st @ [BeginIteration iter, FitPsf (statusesOf (heap st) cs),
          ResetStatus (concat cs), Chi2Clip (chi2Clipped ext (self st) iter (heap (resetStatus cs stf)) cs)]"
    by (simp_all add: st3_def chi2Clip_frame resetStatus_frame tra fra)
  define sres where "sres = spatialResiduals ext psf (stampWidth st) (stampHeight st) (heap st3) (concat cs)"
  have unfolded: "psfIteration ext cs iter loc st =
      (case sres of
         Inl e \<Rightarrow> (Inl e, st3)
       | Inr (residuals, candidates) \<Rightarrow>
           (case spatialClip ext iter residuals candidates [0..<getNKernelParameters psf] st3 of
              (Inl e, st4) \<Rightarrow> (Inl e, st4)
            | (Inr u, st4) \<Rightarrow>
                (if display loc \<noteq> 0 \<and> displayIterations loc \<and> pause loc then
                   (case promptLoop (stdin st4) (pause loc) (display loc) of
                      (Inl e, rest) \<Rightarrow> (Inl e, st4\<lparr>stdin := rest\<rparr>)
                    | (Inr (reply1, pause1, display1), rest) \<Rightarrow>
                        (Inr (loc\<lparr>display := display1, pause := pause1, reply := reply1\<rparr>,
                              reply1 = ''n''),
                         st4\<lparr>stdin := rest\<rparr>))
                 else (Inr (loc, False), st4))))"
    using f r1
    unfolding psfIteration_def sres_def stb_def st3_def Let_def candidatesOf_False
      chi2Clip_frame(2,3) resetStatus_frame(2,3)
    by (simp add: fra)
  from run unfolded obtain residuals candidates where sr: "sres = Inr (residuals, candidates)"
    by (cases sres) auto
  obtain r4 st4 where sc: "spatialClip ext iter residuals candidates [0..<getNKernelParameters psf] st3 = (r4, st4)"
    by (cases "spatialClip ext iter residuals candidates [0..<getNKernelParameters psf] st3")
  from run unfolded sr sc obtain u where r4: "r4 = Inr u"
    by (cases r4) auto
  have st1: "trace st1 = trace st4" "heap st1 = heap st4"
    using run unfolded sr sc r4 by (auto split: if_splits prod.splits sum.splits)
  note sclip = spatialClip_completed[OF sc[unfolded r4]]
  have a: "fitPsf ext cs (logEvent (BeginIteration iter) st) = (Inr (psf, eigenValues, fitChi2), stf)"
    using f r1 by (simp add: stb_def)
  have b: "spatialResiduals ext psf (stampWidth st) (stampHeight st)
       (heap (chi2Clip ext cs iter (resetStatus cs stf))) (concat cs) = Inr (residuals, candidates)"
    using sr by (simp add: sres_def st3_def)
  have c: "\<forall>k < getNKernelParameters psf. column residuals k = Inr (map (\<lambda>row. row ! k) residuals)"
    using sclip by simp
  have d: "newEvents st st1 =
       [BeginIteration iter, FitPsf (statusesOf (heap st) cs), ResetStatus (concat cs),
        Chi2Clip (chi2Clipped ext (self st) iter (heap (resetStatus cs stf)) cs)] @
       map (\<lambda>k. SpatialClip k (componentClipped ext (self st) iter (map (\<lambda>row. row ! k) residuals) candidates))
         [0..<getNKernelParameters psf]"
    using sclip st1 tr3 fr3 by (simp add: newEvents_def)
  have e: "getStatus (heap st1 c) =
       (if \<exists>k < getNKernelParameters psf.
             c \<in> set (componentClipped ext (self st) iter (map (\<lambda>row. row ! k) residuals) candidates)
        then BAD else getStatus (heap (chi2Clip ext cs iter (resetStatus cs stf)) c))" for c
    using sclip st1 fr3 by (auto simp: st3_def)
  from a fra(1) b c d e show thesis by (rule that)
qed







subsection \<open>The example run, step by step\<close>

lemma concat0: "concat [[0,1,2::nat]] = [0,1,2]"
  by simp

lemma setStatus_heapOf: "r < length cands \<Longrightarrow>
  setStatus s (heapOf cands) r = heapOf (cands[r := (cands ! r)\<lparr>getStatus := s\<rparr>])"
  by (auto simp: setStatus_def heapOf_def fun_eq_iff nth_list_update)

lemma reset0: "setStatusAll UNKNOWN [0,1,2] (heap0 s0 s1) = heap0 UNKNOWN UNKNOWN"
  unfolding heap0_def by (simp add: setStatusAll_def setStatus_heapOf) (simp add: cand0_def)

lemma setBad0: "setStatusAll BAD [0] (heap0 UNKNOWN UNKNOWN) = heap0 BAD UNKNOWN"
  unfolding heap0_def by (simp add: setStatusAll_def setStatus_heapOf) (simp add: cand0_def)

lemma setBad1: "setStatusAll BAD [0,1] (heap0 UNKNOWN UNKNOWN) = heap0 BAD BAD"
  unfolding heap0_def by (simp add: setStatusAll_def setStatus_heapOf) (simp add: cand0_def)

lemma getStatus_heap0:
  "getStatus (heap0 s0 s1 0) = s0" "getStatus (heap0 s0 s1 1) = s1" "getStatus (heap0 s0 s1 2) = UNKNOWN"
  by (simp_all add: heap0_def heapOf_def cand0_def)

lemma statuses0: "statusesOf (heap0 s0 s1) [[0,1,2]] = [[s0, s1, UNKNOWN]]"
  by (simp add: statusesOf_def heap0_def heapOf_def cand0_def)

lemma sel0: "self (state0 ks sz s0 s1 inp tr) = self0 ks 2"
  "heap (state0 ks sz s0 s1 inp tr) = heap0 s0 s1"
  "stampWidth (state0 ks sz s0 s1 inp tr) = sz" "stampHeight (state0 ks sz s0 s1 inp tr) = sz"
  "stdin (state0 ks sz s0 s1 inp tr) = inp" "trace (state0 ks sz s0 s1 inp tr) = tr"
  by (simp_all add: state0_def)

lemma logEvent0: "logEvent e (state0 ks sz s0 s1 inp tr) = state0 ks sz s0 s1 inp (tr @ [e])"
  by (simp add: logEvent_def state0_def)

lemma heap_update0: "(state0 ks sz s0 s1 inp tr)\<lparr>heap := heap0 t0 t1\<rparr> = state0 ks sz t0 t1 inp tr"
  by (simp add: state0_def)


lemma fit0: "fitPsf ext0 [[0,1,2]] (state0 21 21 s0 s1 inp tr) =
   (Inr (kernel0, [1/1320], 1), state0 21 21 s0 s1 inp (tr @ [FitPsf [[s0, s1, UNKNOWN]]]))"
  unfolding fitPsf_def logEvent0 sel0 statuses0
  by (simp add: ext0_def state0_def self0_def)

lemma pool0: "chi2BadCandidates (self0 21 2) (heap0 UNKNOWN UNKNOWN) [[0,1,2]] = [0,1]"
  by (simp add: chi2BadCandidates_def candidatesOf_False heap0_def heapOf_def cand0_def self0_def float_gt_def)

lemma sorted0: "sort_chi2 ext0 (heap0 UNKNOWN UNKNOWN) [0,1] = [0,1]"
  by (simp add: sort_chi2_def sort_reverse_def heap0_def heapOf_def cand0_def)

lemma clipped0: "chi2Clipped ext0 (self0 21 2) 0 (heap0 UNKNOWN UNKNOWN) [[0,1,2]] = [0]"
  unfolding chi2Clipped_def pool0 sorted0
  by (simp add: numBad_def py_int_def self0_def)

lemma clipped1: "chi2Clipped ext0 (self0 21 2) 1 (heap0 UNKNOWN UNKNOWN) [[0,1,2]] = [0,1]"
  unfolding chi2Clipped_def pool0 sorted0
  by (simp add: numBad_def py_int_def self0_def)

lemma resetStatus0:
  "resetStatus [[0,1,2]] (state0 ks sz s0 s1 inp tr) =
     state0 ks sz UNKNOWN UNKNOWN inp (tr @ [ResetStatus [0,1,2]])"
  by (simp only: resetStatus_def Let_def candidatesOf_False concat0 sel0 reset0 heap_update0 logEvent0)

lemma chi2Clip0:
  "chi2Clip ext0 [[0,1,2]] 0 (state0 21 sz UNKNOWN UNKNOWN inp tr) =
     state0 21 sz BAD UNKNOWN inp (tr @ [Chi2Clip [0]])"
  by (simp only: chi2Clip_def Let_def sel0 clipped0 setBad0 heap_update0 logEvent0)

lemma chi2Clip1:
  "chi2Clip ext0 [[0,1,2]] 1 (state0 21 sz UNKNOWN UNKNOWN inp tr) =
     state0 21 sz BAD BAD inp (tr @ [Chi2Clip [0,1]])"
  by (simp only: chi2Clip_def Let_def sel0 clipped1 setBad1 heap_update0 logEvent0)

lemma row0: "residualRow ext0 kernel0 [[1]] x y = Inr [1 - x]"
  by (simp add: residualRow_def ext0_def kernel0_def amplitude_def getSum_def)

lemma residuals0: "spatialResiduals ext0 kernel0 21 21 (heap0 s0 s1) [0,1,2] = Inr ([[- 10],[0]], [0,1])"
proof -
  have im: "getImage ext0 c w h = (if getXCenter c < 0 then None else Some [[1]])" for c w h
    by (simp add: ext0_def)
  have c: "heap0 s0 s1 0 = cand0 1 100 11 s0" "heap0 s0 s1 (Suc 0) = cand0 16 50 1 s1"
    "heap0 s0 s1 2 = cand0 81 1 (- 1) UNKNOWN"
    by (simp_all add: heap0_def heapOf_def)
  have x: "getXCenter (cand0 a ch x s) = x" for a ch x s by (simp add: cand0_def)
  show ?thesis by (simp add: im c x row0)
qed

lemma column0: "column [[- 10],[0]] 0 = Inr [- 10, 0]"
  by (simp add: column_def)

lemma spatialBad0: "spatialBadCandidates (self0 ks K) 0 1 [- 10, 0] = [0]"
  by (simp add: spatialBadCandidates_def self0_def upt_rec)

lemma statistics0: "makeStatistics ext0 col = (0, 1)"
  by (simp add: ext0_def)

lemma nIter0: "nIterForPsf (self0 ks K) = K"
  by (simp add: self0_def)

lemma componentClipped0: "componentClipped ext0 (self0 ks 2) 0 [- 10, 0] cands = []"
  by (simp add: componentClipped_def statistics0 spatialClipped_def spatialBad0 sort_reverse_def
        numBad_def py_int_def nIter0)

lemma componentClipped1: "componentClipped ext0 (self0 ks 2) 1 [- 10, 0] cands = [cands ! 0]"
  by (simp add: componentClipped_def statistics0 spatialClipped_def spatialBad0 sort_reverse_def
        numBad_def py_int_def nIter0)

lemma spatialClip0:
   "spatialClip ext0 0 [[- 10],[0]] [0,1] [0] (state0 21 21 s0 s1 inp tr)
   = (Inr (), state0 21 21 s0 s1 inp (tr @ [SpatialClip 0 []]))"
  by (simp add: column0 sel0 componentClipped0 setStatusAll_def) (simp add: state0_def logEvent_def)

lemma spatialClip1:
   "spatialClip ext0 1 [[- 10],[0]] [0,1] [0] (state0 21 21 BAD BAD inp tr)
   = (Inr (), state0 21 21 BAD BAD inp (tr @ [SpatialClip 0 [0]]))"
proof -
  have "setStatusAll BAD [0] (heap0 BAD BAD) = heap0 BAD BAD"
    unfolding heap0_def by (simp add: setStatusAll_def setStatus_heapOf) (simp add: cand0_def)
  then show ?thesis
    by (simp add: column0 sel0 componentClipped1 heap_update0 logEvent0)
qed

lemma upt0: "[0..<getNKernelParameters kernel0] = [0]"
  by (simp add: kernel0_def)

text \<open>The two iterations without a prompt.\<close>

lemma iter0_quiet:
  assumes "\<not> (display loc \<noteq> 0 \<and> displayIterations loc \<and> pause loc)"
  shows "psfIteration ext0 [[0,1,2]] 0 loc (state0 21 21 s0 s1 inp tr) =
   (Inr (loc, False), state0 21 21 BAD UNKNOWN inp
      (tr @ [BeginIteration 0, FitPsf [[s0, s1, UNKNOWN]], ResetStatus [0,1,2], Chi2Clip [0], SpatialClip 0 []]))"
  using assms unfolding psfIteration_def logEvent0 fit0
  by (simp only: prod.case sum.case Let_def candidatesOf_False concat0 sel0 resetStatus0 chi2Clip0
        residuals0 upt0 spatialClip0 if_False append_assoc append_Cons append_Nil)

lemma iter1_quiet:
  assumes "\<not> (display loc \<noteq> 0 \<and> displayIterations loc \<and> pause loc)"
  shows "psfIteration ext0 [[0,1,2]] 1 loc (state0 21 21 s0 s1 inp tr) =
   (Inr (loc, False), state0 21 21 BAD BAD inp
      (tr @ [BeginIteration 1, FitPsf [[s0, s1, UNKNOWN]], ResetStatus [0,1,2], Chi2Clip [0,1], SpatialClip 0 [0]]))"
  using assms unfolding psfIteration_def logEvent0 fit0
  by (simp only: prod.case sum.case Let_def candidatesOf_False concat0 sel0 resetStatus0 chi2Clip1
        residuals0 upt0 spatialClip1 if_False append_assoc append_Cons append_Nil)




text \<open>The start of the method on the example.\<close>

lemma sqrt_16: "sqrt 16 = 4"
  using real_sqrt_abs[of 4] by simp

lemma sqrt_81: "sqrt 81 = 9"
  using real_sqrt_abs[of 9] by simp

lemma sizes0: "candidateSizes ext0 (heap0 s0 s1) [0,1,2] = [Float 1, Float 4, Float 9]"
  by (simp add: candidateSizes_def ext0_def heap0_def heapOf_def cand0_def sqrt_16 sqrt_81)

lemma median_149: "median [1, 4, 9] = 4"
  by (simp add: median_def)

lemma sqrt_4: "sqrt 4 = 2"
  using real_sqrt_abs[of 2] by simp

lemma ops0: "numpy_median ext0 = median0" "numpy_sqrt ext0 = sqrt0" "float_mul ext0 = mul0"
  "float_add ext0 = add0"
  by (simp_all add: ext0_def)

lemma newKernelSize0: "newKernelSize ext0 (self0 5 K) [Float 1, Float 4, Float 9] = Inr 21"
proof -
  have m: "median0 [Float 1, Float 4, Float 9] = Float 4"
    by (simp add: median0_def median_149)
  have ks: "kernelSize (self0 5 K) = 5" "kernelSizeMin (self0 5 K) = 5" "kernelSizeMax (self0 5 K) = 99"
    by (simp_all add: self0_def)
  show ?thesis
    unfolding newKernelSize_def ops0 m ks
    by (simp add: sqrt_4 py_int_def)
qed

lemma cells0: "foldl (insertCandidate ext0 h) (SpatialCellSet ext0 sx sy) [0,1,2] = [[0,1,2]]"
  by (simp add: ext0_def)

text \<open>The whole method on the example, without a prompt and with it.\<close>

lemma resize1: "(state0 ks sz s0 s1 inp tr)\<lparr>self := (self0 ks 2)\<lparr>kernelSize := k\<rparr>\<rparr> = state0 k sz s0 s1 inp tr"
  by (simp add: state0_def self0_def)

lemma start0:
  "determinePsfLoop ext0 dbg [0,1,2] (state0 5 sz s0 s1 inp tr) =
     (case psfIterations ext0 [[0,1,2]] [0, 1] (locals0 dbg)
             (state0 21 21 s0 s1 inp (tr @ [SetHeight 21, SetWidth 21])) of
        (Inl e, st4) \<Rightarrow> (Inl e, st4)
      | (Inr loc1, st4) \<Rightarrow> (Inr ([[0,1,2]], loc1), st4))"
proof -
  have st3: "setWidth 21 (setHeight 21 (state0 21 sz s0 s1 inp tr))
     = state0 21 21 s0 s1 inp (tr @ [SetHeight 21, SetWidth 21])"
    by (simp add: state0_def setHeight_def setWidth_def logEvent_def)
  have r: "py_range (nIterForPsf (self0 21 2)) = [0, 1]"
    by (simp add: py_range_def self0_def upt_rec)
  have ks: "kernelSize (self0 k K) = k" for k K
    by (simp add: self0_def)
  have sl: "self (setHeight k st) = self st" for k st
    by (simp add: setHeight_def logEvent_def)
  show ?thesis
    unfolding determinePsfLoop_def cells0 sel0 sizes0
    by (simp add: Let_def newKernelSize0 resize1 sel0 ks sl st3 r locals0_def
          del: One_nat_def psfIterations.simps)
qed

lemma loop0_quiet:
  "determinePsfLoop ext0 dbg0 [0,1,2] (state0 5 sz s0 s1 inp tr) =
     (Inr ([[0,1,2]], locals0 dbg0),
      state0 21 21 BAD BAD inp
        (tr @ [SetHeight 21, SetWidth 21,
               BeginIteration 0, FitPsf [[s0, s1, UNKNOWN]], ResetStatus [0,1,2], Chi2Clip [0], SpatialClip 0 [],
               BeginIteration 1, FitPsf [[BAD, UNKNOWN, UNKNOWN]], ResetStatus [0,1,2], Chi2Clip [0,1], SpatialClip 0 [0]]))"
proof -
  have q: "\<not> (display (locals0 dbg0) \<noteq> 0 \<and> displayIterations (locals0 dbg0) \<and> pause (locals0 dbg0))"
    by (simp add: locals0_def dbg0_def)
  show ?thesis
    unfolding start0
    by (simp only: psfIterations.simps iter0_quiet[OF q] iter1_quiet[OF q] prod.case sum.case if_False
          append_assoc append_Cons append_Nil)
qed


lemma run0_quiet:
  "determinePsf ext0 dbg0 [0,1,2] (state0 5 sz s0 s1 inp tr) =
     (Inr (kernel0, [[0,1,2]]),
      (state0 21 21 BAD BAD inp
        (tr @ [SetHeight 21, SetWidth 21,
               BeginIteration 0, FitPsf [[s0, s1, UNKNOWN]], ResetStatus [0,1,2], Chi2Clip [0], SpatialClip 0 [],
               BeginIteration 1, FitPsf [[BAD, UNKNOWN, UNKNOWN]], ResetStatus [0,1,2], Chi2Clip [0,1], SpatialClip 0 [0],
               FitPsf [[BAD, BAD, UNKNOWN]]]))
      \<lparr>heap := flagPsfStars ext0 [[0,1,2]] (heap0 BAD BAD)\<rparr>)"
  unfolding determinePsf_def loop0_quiet
  by (simp only: prod.case sum.case fit0 sel0 append_assoc append_Cons append_Nil)


section \<open>The claims\<close>













text \<open>
  Claim C4, as the code has it. In every round of the loop the fit comes first
  (\<^verbatim>\<open># First, estimate the PSF\<close>): the first two calls of the round are the begin of the
  iteration and the fit, which is given the candidates with the statuses the round
  before, or the caller, has left. In a round that raises nothing, the reset of every
  candidate of the cell set to UNKNOWN comes next, after the fit and before the two
  clipping steps of the round, one call of the spatial step for each component; after
  the reset every candidate of the cell set is UNKNOWN; and at the end of the round a
  candidate of the cell set is BAD exactly when one of the clipping steps of this round
  has set it BAD, and UNKNOWN otherwise, whatever its status was before the round.
\<close>

theorem fit_precedes_reset:
  assumes run: "psfIteration ext cs iter loc st = (res, st1)"
  shows "take 2 (newEvents st st1) = [BeginIteration iter, FitPsf (statusesOf (heap st) cs)] \<and>
         ((\<exists>r. res = Inr r) \<longrightarrow>
            (\<exists>psf eigenValues fitChi2 stf sp.
               fitPsf ext cs (logEvent (BeginIteration iter) st) = (Inr (psf, eigenValues, fitChi2), stf) \<and>
               newEvents st st1 =
                 [BeginIteration iter, FitPsf (statusesOf (heap st) cs), ResetStatus (concat cs),
                  Chi2Clip (chi2Clipped ext (self st) iter (heap (resetStatus cs stf)) cs)] @ sp \<and>
               list_all isSpatialClip sp \<and> length sp = getNKernelParameters psf \<and>
               (\<forall>c \<in> set (concat cs). getStatus (heap (resetStatus cs stf) c) = UNKNOWN) \<and>
               (\<forall>c \<in> set (concat cs).
                  getStatus (heap st1 c) =
                    (if c \<in> set (concat (map clippedBy (newEvents st st1))) then BAD else UNKNOWN))))"
proof -
  have first: "take 2 (newEvents st st1) = [BeginIteration iter, FitPsf (statusesOf (heap st) cs)]"
    using run
  proof (cases rule: psfIteration_cases)
    case (fit_raised e)
    then show ?thesis by (simp add: newEvents_def)
  next
    case (clipped sp ha)
    then show ?thesis by (simp add: newEvents_def)
  qed
  have rest: "\<exists>psf eigenValues fitChi2 stf sp.
               fitPsf ext cs (logEvent (BeginIteration iter) st) = (Inr (psf, eigenValues, fitChi2), stf) \<and>
               newEvents st st1 =
                 [BeginIteration iter, FitPsf (statusesOf (heap st) cs), ResetStatus (concat cs),
                  Chi2Clip (chi2Clipped ext (self st) iter (heap (resetStatus cs stf)) cs)] @ sp \<and>
               list_all isSpatialClip sp \<and> length sp = getNKernelParameters psf \<and>
               (\<forall>c \<in> set (concat cs). getStatus (heap (resetStatus cs stf) c) = UNKNOWN) \<and>
               (\<forall>c \<in> set (concat cs).
                  getStatus (heap st1 c) =
                    (if c \<in> set (concat (map clippedBy (newEvents st st1))) then BAD else UNKNOWN))"
    if "res = Inr r" for r
  proof -
    from run that have run': "psfIteration ext cs iter loc st = (Inr r, st1)" by simp
    show ?thesis
    proof (rule psfIteration_completed[OF run'])
    fix psf eigenValues fitChi2 stf residuals candidates
    assume fit: "fitPsf ext cs (logEvent (BeginIteration iter) st) = (Inr (psf, eigenValues, fitChi2), stf)"
      and self: "self stf = self st"
      and ev: "newEvents st st1 =
         [BeginIteration iter, FitPsf (statusesOf (heap st) cs), ResetStatus (concat cs),
          Chi2Clip (chi2Clipped ext (self st) iter (heap (resetStatus cs stf)) cs)] @
         map (\<lambda>k. SpatialClip k (componentClipped ext (self st) iter (map (\<lambda>row. row ! k) residuals) candidates))
           [0..<getNKernelParameters psf]"
      and sts: "\<And>c. getStatus (heap st1 c) =
         (if \<exists>k < getNKernelParameters psf.
               c \<in> set (componentClipped ext (self st) iter (map (\<lambda>row. row ! k) residuals) candidates)
          then BAD else getStatus (heap (chi2Clip ext cs iter (resetStatus cs stf)) c))"
    define sp where "sp = map (\<lambda>k. SpatialClip k
        (componentClipped ext (self st) iter (map (\<lambda>row. row ! k) residuals) candidates))
        [0..<getNKernelParameters psf]"
    have sp1: "list_all isSpatialClip sp" "length sp = getNKernelParameters psf"
      by (simp_all add: sp_def list_all_iff)
    have unknown: "getStatus (heap (resetStatus cs stf) c) = UNKNOWN" if "c \<in> set (concat cs)" for c
      using that by (simp add: getStatus_resetStatus)
    have by_clip: "set (concat (map clippedBy (newEvents st st1))) =
        set (chi2Clipped ext (self st) iter (heap (resetStatus cs stf)) cs) \<union>
        {c. \<exists>k < getNKernelParameters psf.
              c \<in> set (componentClipped ext (self st) iter (map (\<lambda>row. row ! k) residuals) candidates)}"
      unfolding ev by (auto simp: clippedBy_SpatialClip)
    have final: "getStatus (heap st1 c) =
        (if c \<in> set (concat (map clippedBy (newEvents st st1))) then BAD else UNKNOWN)"
      if c: "c \<in> set (concat cs)" for c
    proof -
      have "getStatus (heap (chi2Clip ext cs iter (resetStatus cs stf)) c) =
        (if c \<in> set (chi2Clipped ext (self st) iter (heap (resetStatus cs stf)) cs) then BAD
         else getStatus (heap (resetStatus cs stf) c))"
        by (simp only: getStatus_chi2Clip resetStatus_frame(1) self)
      with unknown[OF c] have "getStatus (heap (chi2Clip ext cs iter (resetStatus cs stf)) c) =
        (if c \<in> set (chi2Clipped ext (self st) iter (heap (resetStatus cs stf)) cs) then BAD else UNKNOWN)"
        by simp
      then show ?thesis
        unfolding sts by_clip by auto
    qed
    show ?thesis
      apply (rule exI[where x=psf], rule exI[where x=eigenValues], rule exI[where x=fitChi2],
             rule exI[where x=stf], rule exI[where x=sp])
      using fit ev[folded sp_def] sp1 unknown final by blast
    qed
  qed
  from first rest show ?thesis by blast
qed

text \<open>
  Round 0 of the example, begun with the candidates 0 and 1 BAD: the fit is given them
  BAD, and the round leaves the candidate 1, which none of its steps has clipped,
  UNKNOWN.
\<close>

theorem fit_precedes_reset_witness:
  "newEvents (state0 21 21 BAD BAD [] [])
     (snd (psfIteration ext0 [[0,1,2]] 0 (locals0 dbg0) (state0 21 21 BAD BAD [] []))) =
     [BeginIteration 0, FitPsf [[BAD, BAD, UNKNOWN]], ResetStatus [0,1,2], Chi2Clip [0], SpatialClip 0 []] \<and>
   getStatus (heap (state0 21 21 BAD BAD [] []) 1) = BAD \<and>
   getStatus (heap (snd (psfIteration ext0 [[0,1,2]] 0 (locals0 dbg0) (state0 21 21 BAD BAD [] []))) 1) = UNKNOWN"
proof -
  have q: "\<not> (display (locals0 dbg0) \<noteq> 0 \<and> displayIterations (locals0 dbg0) \<and> pause (locals0 dbg0))"
    by (simp add: locals0_def dbg0_def)
  note run = iter0_quiet[OF q, of BAD BAD "[]" "[]"]
  have ev: "newEvents (state0 21 21 BAD BAD [] [])
     (snd (psfIteration ext0 [[0,1,2]] 0 (locals0 dbg0) (state0 21 21 BAD BAD [] []))) =
     [BeginIteration 0, FitPsf [[BAD, BAD, UNKNOWN]], ResetStatus [0,1,2], Chi2Clip [0], SpatialClip 0 []]"
    unfolding run by (simp add: newEvents_def sel0)
  have before: "getStatus (heap (state0 21 21 BAD BAD [] []) 1) = BAD"
    unfolding sel0 by (rule getStatus_heap0)
  have mem: "(1::nat) \<in> set (concat [[0,1,2]])" by simp
  from fit_precedes_reset[OF run]
  have "\<forall>c \<in> set (concat [[0,1,2]]).
          getStatus (heap (snd (psfIteration ext0 [[0,1,2]] 0 (locals0 dbg0) (state0 21 21 BAD BAD [] []))) c) =
            (if c \<in> set (concat (map clippedBy (newEvents (state0 21 21 BAD BAD [] [])
                   (snd (psfIteration ext0 [[0,1,2]] 0 (locals0 dbg0) (state0 21 21 BAD BAD [] []))))))
             then BAD else UNKNOWN)"
    unfolding run by auto
  from this[rule_format, OF mem]
  have "getStatus (heap (snd (psfIteration ext0 [[0,1,2]] 0 (locals0 dbg0) (state0 21 21 BAD BAD [] []))) 1) =
          UNKNOWN"
    unfolding ev by simp
  with ev before show ?thesis by blast
qed

text \<open>
  Claim C4 as stated fails. The calls of the example run, in order: in each round the fit
  comes before the reset, and the fit of round 1 is called with the candidate 0 BAD, as
  round 0 has left it.
\<close>

theorem fit_precedes_reset_counterexample:
  "trace (snd (determinePsf ext0 dbg0 [0,1,2] (state0 5 0 UNKNOWN UNKNOWN [] []))) =
     [SetHeight 21, SetWidth 21,
      BeginIteration 0, FitPsf [[UNKNOWN, UNKNOWN, UNKNOWN]], ResetStatus [0,1,2], Chi2Clip [0], SpatialClip 0 [],
      BeginIteration 1, FitPsf [[BAD, UNKNOWN, UNKNOWN]], ResetStatus [0,1,2], Chi2Clip [0,1], SpatialClip 0 [0],
      FitPsf [[BAD, BAD, UNKNOWN]]]"
  unfolding run0_quiet by (simp add: state0_def)

text \<open>
  Claim C6. With an empty candidate list \<open>determinePsf\<close> raises
  \<^verbatim>\<open>RuntimeError("No PSF candidates supplied.")\<close> (the input error of the specification) and
  leaves the state as it was: the determiner, the stamp size and the candidates are not
  changed and no call is made (the trace is the same). With a non-empty list it never
  raises a RuntimeError.
\<close>

theorem empty_candidate_list_raises:
  "determinePsf ext dbg [] st = (Inl (RuntimeError ''No PSF candidates supplied.''), st) \<and>
   (psfCandidateList \<noteq> [] \<longrightarrow>
      fst (determinePsf ext dbg psfCandidateList st) \<noteq> Inl (RuntimeError msg))"
proof -
  have "fst (determinePsf ext dbg psfCandidateList st) \<noteq> Inl (RuntimeError msg)"
    if ne: "psfCandidateList \<noteq> []"
  proof (cases "newKernelSize ext (self st) (candidateSizes ext (heap st) psfCandidateList)")
    case (Inl e)
    from determinePsf_sizing_raised[OF ne Inl] newKernelSize_error[OF Inl] show ?thesis by auto
  next
    case (Inr ks)
    from determinePsf_events(5)[OF ne Inr run_pair] show ?thesis by auto
  qed
  then show ?thesis by (simp add: determinePsf_empty)
qed

text \<open>The example run, whose list holds three candidates.\<close>

theorem empty_candidate_list_raises_witness:
  "[0,1,2::nat] \<noteq> [] \<and>
   fst (determinePsf ext0 dbg0 [0,1,2] (state0 5 0 UNKNOWN UNKNOWN [] [])) \<noteq>
     Inl (RuntimeError ''No PSF candidates supplied.'')"
  using empty_candidate_list_raises[of ext0 dbg0 "state0 5 0 UNKNOWN UNKNOWN [] []" "[0,1,2]"
          "''No PSF candidates supplied.''"]
  by simp


text \<open>
  Claim C7. When \<open>determinePsf\<close> returns, the loop has ended in some state; the method then
  makes one more fit on the cell set in that state, which is the last call of its trace
  (no reset and no clipping follows it), and returns the PSF of that fit. The statuses of
  the candidates the method leaves are those the fit leaves. The fit is called with the
  statuses the loop has left, and in all the method has made one fit more than it has
  begun iterations.
\<close>

theorem final_fit_is_returned:
  assumes "determinePsf ext dbg psfCandidateList st = (Inr (psf, psfCellSet), st1)"
  shows "\<exists>loc st4 eigenValues fitChi2 st5.
           determinePsfLoop ext dbg psfCandidateList st = (Inr (psfCellSet, loc), st4) \<and>
           fitPsf ext psfCellSet st4 = (Inr (psf, eigenValues, fitChi2), st5) \<and>
           trace st1 = trace st4 @ [FitPsf (statusesOf (heap st4) psfCellSet)] \<and>
           (\<forall>r. getStatus (heap st1 r) = getStatus (heap st5 r)) \<and>
           fitsRun (newEvents st st1) = iterationsRun (newEvents st st1) + 1"
proof -
  obtain r4 st4 where loop: "determinePsfLoop ext dbg psfCandidateList st = (r4, st4)"
    by (cases "determinePsfLoop ext dbg psfCandidateList st")
  from assms loop obtain cs loc where r4: "r4 = Inr (cs, loc)"
    by (cases r4) (auto simp: determinePsf_def)
  obtain r5 st5 where fit: "fitPsf ext cs st4 = (r5, st5)"
    by (cases "fitPsf ext cs st4")
  from assms loop r4 fit obtain eigenValues fitChi2 where
    r5: "r5 = Inr (psf, eigenValues, fitChi2)" and cs: "cs = psfCellSet"
    and st1: "st1 = st5\<lparr>heap := flagPsfStars ext cs (heap st5)\<rparr>"
    by (cases r5) (auto simp: determinePsf_def)
  have tr: "trace st1 = trace st4 @ [FitPsf (statusesOf (heap st4) psfCellSet)]"
    using fitPsf_frame(1)[OF fit] st1 cs by simp
  have sts: "getStatus (heap st1 r) = getStatus (heap st5 r)" for r
    using st1 by (simp add: getStatus_flagPsfStars)
  note ne = determinePsf_Inr_sized(1)[OF assms]
  from determinePsf_Inr_sized(2)[OF assms] obtain ks where
    ks: "newKernelSize ext (self st) (candidateSizes ext (heap st) psfCandidateList) = Inr ks" by blast
  from determinePsf_events(1)[OF ne ks assms] obtain evs fin where
    "trace st1 = trace st @ SetHeight ks # SetWidth ks # evs @ fin"
    "fitsRun evs = iterationsRun evs" "iterationsRun fin = 0" "fitsRun fin = 1"
    by blast
  then have count: "fitsRun (newEvents st st1) = iterationsRun (newEvents st st1) + 1"
    by (simp add: newEvents_def iterationsRun_def fitsRun_def)
  show ?thesis
    apply (rule exI[where x=loc], rule exI[where x=st4], rule exI[where x=eigenValues],
           rule exI[where x=fitChi2], rule exI[where x=st5])
    using loop r4 cs fit r5 tr sts count by simp
qed

text \<open>The example run: three fits for two iterations, the last one the last call.\<close>

theorem final_fit_is_returned_witness:
  "fitsRun (newEvents (state0 5 0 UNKNOWN UNKNOWN [] [])
      (snd (determinePsf ext0 dbg0 [0,1,2] (state0 5 0 UNKNOWN UNKNOWN [] [])))) = 3 \<and>
   last (trace (snd (determinePsf ext0 dbg0 [0,1,2] (state0 5 0 UNKNOWN UNKNOWN [] [])))) =
     FitPsf [[BAD, BAD, UNKNOWN]]"
proof -
  from final_fit_is_returned[OF run0_quiet[of 0 UNKNOWN UNKNOWN "[]" "[]"]]
  have "fitsRun (newEvents (state0 5 0 UNKNOWN UNKNOWN [] [])
          (snd (determinePsf ext0 dbg0 [0,1,2] (state0 5 0 UNKNOWN UNKNOWN [] [])))) =
        iterationsRun (newEvents (state0 5 0 UNKNOWN UNKNOWN [] [])
          (snd (determinePsf ext0 dbg0 [0,1,2] (state0 5 0 UNKNOWN UNKNOWN [] [])))) + 1"
    unfolding run0_quiet by auto
  moreover have "iterationsRun (newEvents (state0 5 0 UNKNOWN UNKNOWN [] [])
          (snd (determinePsf ext0 dbg0 [0,1,2] (state0 5 0 UNKNOWN UNKNOWN [] [])))) = 2"
    unfolding run0_quiet by (simp add: newEvents_def iterationsRun_def state0_def)
  moreover have "last (trace (snd (determinePsf ext0 dbg0 [0,1,2] (state0 5 0 UNKNOWN UNKNOWN [] [])))) =
     FitPsf [[BAD, BAD, UNKNOWN]]"
    unfolding run0_quiet by (simp add: state0_def)
  ultimately show ?thesis by simp
qed







text \<open>
  Claim C9. For every non-empty candidate list whose kernel size \<open>ks\<close> can be computed:
  the first two calls of \<open>determinePsf\<close> set the stamp height and the stamp width of the
  candidates to \<open>ks\<close>, before the first iteration begins; no later call of the run sets
  the stamp size, whether the run returns or raises; and the stamp height and width the
  run leaves are \<open>ks\<close>.
\<close>

theorem stamp_size_set_once:
  assumes "psfCandidateList \<noteq> []"
      and "newKernelSize ext (self st) (candidateSizes ext (heap st) psfCandidateList) = Inr ks"
  shows "\<exists>evs. newEvents st (snd (determinePsf ext dbg psfCandidateList st)) =
                  SetHeight ks # SetWidth ks # evs \<and>
               list_all (\<lambda>e. \<not> isSetSize e) evs \<and>
               stampHeight (snd (determinePsf ext dbg psfCandidateList st)) = ks \<and>
               stampWidth (snd (determinePsf ext dbg psfCandidateList st)) = ks"
proof -
  from determinePsf_events(1)[OF assms run_pair] obtain evs fin where
    "trace (snd (determinePsf ext dbg psfCandidateList st)) =
       trace st @ SetHeight ks # SetWidth ks # evs @ fin"
    "list_all (\<lambda>e. \<not> isSetSize e) (evs @ fin)"
    by blast
  with determinePsf_events(3,4)[OF assms run_pair] show ?thesis
    by (intro exI[where x="evs @ fin"]) (simp add: newEvents_def)
qed

text \<open>The example run: the size 21 is set first, and once.\<close>

theorem stamp_size_set_once_witness:
  "newKernelSize ext0 (self (state0 5 0 UNKNOWN UNKNOWN [] []))
     (candidateSizes ext0 (heap (state0 5 0 UNKNOWN UNKNOWN [] [])) [0,1,2]) = Inr 21 \<and>
   take 2 (trace (snd (determinePsf ext0 dbg0 [0,1,2] (state0 5 0 UNKNOWN UNKNOWN [] [])))) =
     [SetHeight 21, SetWidth 21] \<and>
   filter isSetSize (trace (snd (determinePsf ext0 dbg0 [0,1,2] (state0 5 0 UNKNOWN UNKNOWN [] [])))) =
     [SetHeight 21, SetWidth 21] \<and>
   stampHeight (snd (determinePsf ext0 dbg0 [0,1,2] (state0 5 0 UNKNOWN UNKNOWN [] []))) = 21 \<and>
   stampWidth (snd (determinePsf ext0 dbg0 [0,1,2] (state0 5 0 UNKNOWN UNKNOWN [] []))) = 21"
proof -
  have ne: "[0,1,2::nat] \<noteq> []" by simp
  have ks: "newKernelSize ext0 (self (state0 5 0 UNKNOWN UNKNOWN [] []))
     (candidateSizes ext0 (heap (state0 5 0 UNKNOWN UNKNOWN [] [])) [0,1,2]) = Inr 21"
    unfolding sel0 sizes0 by (rule newKernelSize0)
  from stamp_size_set_once[OF ne ks, of dbg0] obtain evs where
    ev: "newEvents (state0 5 0 UNKNOWN UNKNOWN [] [])
           (snd (determinePsf ext0 dbg0 [0,1,2] (state0 5 0 UNKNOWN UNKNOWN [] []))) =
         SetHeight 21 # SetWidth 21 # evs"
        "list_all (\<lambda>e. \<not> isSetSize e) evs"
    and sz: "stampHeight (snd (determinePsf ext0 dbg0 [0,1,2] (state0 5 0 UNKNOWN UNKNOWN [] []))) = 21"
            "stampWidth (snd (determinePsf ext0 dbg0 [0,1,2] (state0 5 0 UNKNOWN UNKNOWN [] []))) = 21"
    by blast
  have tr: "trace (snd (determinePsf ext0 dbg0 [0,1,2] (state0 5 0 UNKNOWN UNKNOWN [] []))) =
            SetHeight 21 # SetWidth 21 # evs"
    using ev(1) by (simp add: newEvents_def sel0)
  have "filter isSetSize evs = []"
    using ev(2) by (induction evs) auto
  with tr ks sz show ?thesis by simp
qed


lemma newKernelSize_absolute: "15 \<le> kernelSize s \<Longrightarrow> newKernelSize ext s sizes = Inr (kernelSize s)"
  by (simp add: newKernelSize_def)

text \<open>
  Claim C10. A call of \<open>determinePsf\<close> on a non-empty candidate list, for which the kernel
  size \<open>ks\<close> is computed, leaves the determiner with \<open>_kernelSize = ks\<close> and its other fields
  as they were, whether it returns or raises, and whatever \<open>ks\<close> is. A second call on the
  same determiner (any state \<open>st2\<close> with that determiner, any non-empty candidate list,
  any library and debugging values) starts from \<open>ks\<close> as its base size: the size it
  computes is the one computed from the base \<open>ks\<close>, and it leaves that size in the
  determiner in turn. When \<open>ks\<close> is at least 15 the second call computes \<open>ks\<close> again whatever
  the moments of its candidates are, and leaves \<open>ks\<close>.
\<close>

theorem kernel_size_persists:
  assumes "psfCandidateList \<noteq> []"
      and "newKernelSize ext (self st) (candidateSizes ext (heap st) psfCandidateList) = Inr ks"
      and "self st2 = self (snd (determinePsf ext dbg psfCandidateList st))"
      and "secondList \<noteq> []"
  shows "self (snd (determinePsf ext dbg psfCandidateList st)) = (self st)\<lparr>kernelSize := ks\<rparr> \<and>
         kernelSize (self st2) = ks \<and>
         newKernelSize extb (self st2) sizes = newKernelSize extb ((self st)\<lparr>kernelSize := ks\<rparr>) sizes \<and>
         (\<forall>ks2. newKernelSize extb ((self st)\<lparr>kernelSize := ks\<rparr>)
                  (candidateSizes extb (heap st2) secondList) = Inr ks2 \<longrightarrow>
            self (snd (determinePsf extb dbgb secondList st2)) = (self st)\<lparr>kernelSize := ks2\<rparr>) \<and>
         (15 \<le> ks \<longrightarrow>
            newKernelSize extb (self st2) sizes = Inr ks \<and>
            kernelSize (self (snd (determinePsf extb dbgb secondList st2))) = ks)"
proof -
  note first = determinePsf_events(2)[OF assms(1,2) run_pair]
  have same: "self st2 = (self st)\<lparr>kernelSize := ks\<rparr>"
    using assms(3) first by simp
  then have base: "kernelSize (self st2) = ks" by simp
  have second: "self (snd (determinePsf extb dbgb secondList st2)) = (self st)\<lparr>kernelSize := ks2\<rparr>"
    if "newKernelSize extb ((self st)\<lparr>kernelSize := ks\<rparr>) (candidateSizes extb (heap st2) secondList) = Inr ks2"
    for ks2
  proof -
    from that have "newKernelSize extb (self st2) (candidateSizes extb (heap st2) secondList) = Inr ks2"
      by (simp add: same)
    from determinePsf_events(2)[OF assms(4) this run_pair] show ?thesis
      by (simp add: same)
  qed
  have again: "newKernelSize extb (self st2) sizes = Inr ks" if "15 \<le> ks" for sizes
    using newKernelSize_absolute[of "self st2" extb sizes] base that by simp
  have left: "kernelSize (self (snd (determinePsf extb dbgb secondList st2))) = ks" if "15 \<le> ks"
    using determinePsf_events(2)[OF assms(4) again[OF that] run_pair] by simp
  from first base same second again left show ?thesis by simp
qed

lemma newKernelSize_9: "newKernelSize ext0 (self0 5 2) [Float 9] = Inr 31"
proof -
  have m: "median0 [Float 9] = Float 9"
    by (simp add: median0_def median_def)
  have s9: "sqrt 9 = 3"
    using real_sqrt_abs[of 3] by simp
  have ks: "kernelSize (self0 5 K) = 5" "kernelSizeMin (self0 5 K) = 5" "kernelSizeMax (self0 5 K) = 99" for K
    by (simp_all add: self0_def)
  show ?thesis
    unfolding newKernelSize_def ops0 m ks
    by (simp add: s9 py_int_def)
qed

text \<open>
  The example run leaves the size 21. A second call on the candidate 2 alone, whose
  semi-major axis is 9, leaves 21 again, where a determiner with the configured base
  size 5 computes 31 for that candidate.
\<close>

theorem kernel_size_persists_witness:
  "kernelSize (self (snd (determinePsf ext0 dbg0 [0,1,2] (state0 5 0 UNKNOWN UNKNOWN [] [])))) = 21 \<and>
   kernelSize (self (snd (determinePsf ext0 dbg0 [2]
       (snd (determinePsf ext0 dbg0 [0,1,2] (state0 5 0 UNKNOWN UNKNOWN [] [])))))) = 21 \<and>
   candidateSizes ext0 (heap0 UNKNOWN UNKNOWN) [2] = [Float 9] \<and>
   newKernelSize ext0 (self0 5 2) [Float 9] = Inr 31"
proof -
  have ne: "[0,1,2::nat] \<noteq> []" "[2::nat] \<noteq> []" by simp_all
  have ks: "newKernelSize ext0 (self (state0 5 0 UNKNOWN UNKNOWN [] []))
     (candidateSizes ext0 (heap (state0 5 0 UNKNOWN UNKNOWN [] [])) [0,1,2]) = Inr 21"
    unfolding sel0 sizes0 by (rule newKernelSize0)
  from kernel_size_persists[OF ne(1) ks refl ne(2), where extb=ext0 and dbgb=dbg0]
  have "kernelSize (self (snd (determinePsf ext0 dbg0 [0,1,2] (state0 5 0 UNKNOWN UNKNOWN [] [])))) = 21"
       "kernelSize (self (snd (determinePsf ext0 dbg0 [2]
          (snd (determinePsf ext0 dbg0 [0,1,2] (state0 5 0 UNKNOWN UNKNOWN [] [])))))) = 21"
    by simp_all
  moreover have "candidateSizes ext0 (heap0 UNKNOWN UNKNOWN) [2] = [Float 9]"
    by (simp add: candidateSizes_def ext0_def heap0_def heapOf_def cand0_def sqrt_81)
  ultimately show ?thesis by (simp add: newKernelSize_9)
qed

end
